theory Spec2Isabelle
  imports Main
begin

section \<open>The launcher of the Rust binary: data model\<close>

text \<open>
  The repository holds two copies of one launcher: \<open>bootstrap.ts\<close>
  (\<open>invokeWith\<close>, \<open>executeRustBinaryAction\<close>) and an older variant
  (\<open>run\<close>, \<open>execute_rust_binary_action\<close>). Both read \<open>Cargo.toml\<close>, look the
  binary up in the runner's tool cache, download and unpack a release archive when
  the lookup finds nothing, and execute the binary.

  A JavaScript \<open>throw\<close> (or a rejected promise) carries any value. The handler of
  the entry points tests \<open>e instanceof Error\<close> and reads \<open>e.message\<close>, so a thrown
  value is either an \<open>Error\<close> object, with its \<open>name\<close> (\<open>Error\<close>, \<open>TypeError\<close>,
  ...) and its \<open>message\<close>, or some other value.
\<close>

datatype thrown = Error (error_name: string) (message: string) | NonError string

text \<open>The part of the parsed \<open>Cargo.toml\<close> the launcher reads.\<close>

record toml_package =
  package_name :: string
  package_repository :: string
  package_version :: string

record toml_bin =
  bin_name :: string

record toml =
  package :: toml_package
  bin :: "toml_bin list"

text \<open>
  The calls that leave the process, in the order they are made. Each records the
  arguments the launcher passes.
\<close>

datatype event =
    ReadFile string
  | Find string string
  | Download string
  | ExtractTar string "string option"
  | CacheFile string string string string
  | Exec string "string list"
  | SetFailed string

text \<open>
  The accessors of \<open>@actions/core\<close> that \<open>invokeWith\<close> hands to the argument
  builder, and the type \<open>GetArguments\<close> of the builder.
\<close>

record accessors =
  getInput :: "string \<Rightarrow> bool \<Rightarrow> thrown + string"
  getBooleanInput :: "string \<Rightarrow> bool \<Rightarrow> thrown + bool"
  getMultilineInput :: "string \<Rightarrow> bool \<Rightarrow> thrown + string list"

type_synonym GetArguments = "accessors \<Rightarrow> thrown + string list"

text \<open>
  Everything the launcher takes from Node, from the runner and from the libraries
  it imports, none of which is code of this repository: \<open>process.platform\<close>,
  \<open>process.env.RUNNER_TEMP\<close> (which may be undefined), \<open>__dirname\<close>,
  \<open>path.join\<close> of the running platform, and the outcome of \<open>readFileSync\<close>,
  of the TOML parser, of \<open>downloadTool\<close>, \<open>extractTar\<close>, \<open>cacheFile\<close> and
  \<open>exec\<close> on given arguments (\<open>Inl\<close> is the value thrown, or the rejection of the
  promise), and the workflow inputs. The outcome of an external call is a function
  of its arguments: the host stays the same over the invocations considered, and
  only the tool cache changes.
\<close>

record host =
  platform :: string
  RUNNER_TEMP :: "string option"
  dirname :: string
  path_join :: "string \<Rightarrow> string \<Rightarrow> string"
  readFileSync :: "string \<Rightarrow> thrown + string"
  tomlParse :: "string \<Rightarrow> thrown + toml"
  downloadTool :: "string \<Rightarrow> thrown + string"
  extractTar :: "string \<Rightarrow> string option \<Rightarrow> thrown + string"
  cacheFile :: "string \<Rightarrow> string \<Rightarrow> string \<Rightarrow> string \<Rightarrow> thrown + string"
  exec :: "string \<Rightarrow> string list \<Rightarrow> thrown + int"
  inputs :: "string \<Rightarrow> string option"
  core_getBooleanInput :: "string \<Rightarrow> bool \<Rightarrow> thrown + bool"
  core_getMultilineInput :: "string \<Rightarrow> bool \<Rightarrow> thrown + string list"

text \<open>
  What changes during an invocation: the tool cache of the runner, keyed by tool
  name and version, and the trace of the calls made so far.
\<close>

record world =
  tool_cache :: "string \<times> string \<Rightarrow> string option"
  trace :: "event list"

definition log_event :: "event \<Rightarrow> world \<Rightarrow> world" where
  "log_event ev w = w\<lparr>trace := trace w @ [ev]\<rparr>"

text \<open>
  Sequencing of a step that may throw with the rest of the function: the rest runs
  only when the step returned; a thrown value ends the function with the world as
  it is at that point. This is what \<open>await\<close> and a plain call do inside an
  \<open>async\<close> function without \<open>try\<close>.
\<close>

definition and_then ::
  "(thrown + 'a) \<times> world \<Rightarrow> ('a \<Rightarrow> world \<Rightarrow> (thrown + 'b) \<times> world) \<Rightarrow> (thrown + 'b) \<times> world" where
  "and_then r k = (case r of (Inl e, w) \<Rightarrow> (Inl e, w) | (Inr x, w) \<Rightarrow> k x w)"

section \<open>The external calls\<close>

definition readFileSync_io :: "host \<Rightarrow> string \<Rightarrow> world \<Rightarrow> (thrown + string) \<times> world" where
  "readFileSync_io h path w = (readFileSync h path, log_event (ReadFile path) w)"

definition downloadTool_io :: "host \<Rightarrow> string \<Rightarrow> world \<Rightarrow> (thrown + string) \<times> world" where
  "downloadTool_io h url w = (downloadTool h url, log_event (Download url) w)"

definition extractTar_io ::
  "host \<Rightarrow> string \<Rightarrow> string option \<Rightarrow> world \<Rightarrow> (thrown + string) \<times> world" where
  "extractTar_io h file dest w = (extractTar h file dest, log_event (ExtractTar file dest) w)"

definition exec_io :: "host \<Rightarrow> string \<Rightarrow> string list \<Rightarrow> world \<Rightarrow> (thrown + int) \<times> world" where
  "exec_io h commandLine args w = (exec h commandLine args, log_event (Exec commandLine args) w)"

definition setFailed :: "string \<Rightarrow> world \<Rightarrow> world" where
  "setFailed msg w = log_event (SetFailed msg) w"

text \<open>
  Modelled from the spec: the tool cache of \<open>@actions/tool-cache\<close> is not code of
  this repository. The spec describes it as a keyed store with the interface
  \<open>find(key) -> path?\<close> and \<open>store(file, name, key) -> path\<close>. \<open>tool_find\<close> is
  the library's \<open>find\<close>: the directory stored under the key, or the empty string
  when there is none. \<open>cacheFile_io\<close> is the library's \<open>cacheFile\<close>: when the
  copy succeeds, the directory it returns is stored under the key. The key is
  looked up as it is: the library's checks of its arguments and its matching of
  version ranges are not modelled.
\<close>

definition tool_find :: "string \<Rightarrow> string \<Rightarrow> world \<Rightarrow> string \<times> world" where
  "tool_find toolName versionSpec w =
     ((case tool_cache w (toolName, versionSpec) of None \<Rightarrow> '''' | Some dir \<Rightarrow> dir),
      log_event (Find toolName versionSpec) w)"

definition cacheFile_io ::
  "host \<Rightarrow> string \<Rightarrow> string \<Rightarrow> string \<Rightarrow> string \<Rightarrow> world \<Rightarrow> (thrown + string) \<times> world" where
  "cacheFile_io h sourceFile targetFile tool ver w =
     (case cacheFile h sourceFile targetFile tool ver of
        Inl e \<Rightarrow> (Inl e, log_event (CacheFile sourceFile targetFile tool ver) w)
      | Inr dir \<Rightarrow>
          (Inr dir,
           log_event (CacheFile sourceFile targetFile tool ver)
             (w\<lparr>tool_cache := (tool_cache w)((tool, ver) \<mapsto> dir)\<rparr>)))"

text \<open>
  Modelled from the spec: \<open>getInput\<close> of \<open>@actions/core\<close> is not code of this
  repository. The spec describes it as a single-value lookup, optionally required,
  that fails with a message identifying the input when a required input is
  missing. An input that is absent reads as the empty string; a required input
  that reads as the empty string raises an \<open>Error\<close> whose message ends with the
  name of the input; otherwise the value is returned without the white space
  around it.
\<close>

definition is_space :: "char \<Rightarrow> bool" where
  "is_space c = (c \<in> set [CHR '' '', CHR 0x09, CHR 0x0A, CHR 0x0B, CHR 0x0C, CHR 0x0D])"

definition trim :: "string \<Rightarrow> string" where
  "trim s = rev (dropWhile is_space (rev (dropWhile is_space s)))"

definition core_getInput :: "host \<Rightarrow> string \<Rightarrow> bool \<Rightarrow> thrown + string" where
  "core_getInput h nm required =
     (let val = (case inputs h nm of None \<Rightarrow> '''' | Some v \<Rightarrow> v)
      in if required \<and> val = ''''
         then Inl (Error ''Error'' (''Input required and not supplied: '' @ nm))
         else Inr (trim val))"

definition core_accessors :: "host \<Rightarrow> accessors" where
  "core_accessors h =
     \<lparr>getInput = core_getInput h,
      getBooleanInput = core_getBooleanInput h,
      getMultilineInput = core_getMultilineInput h\<rparr>"

section \<open>The pure parts of the launcher\<close>

text \<open>\<open>platform === 'win32' ? `${name}.exe` : name\<close>\<close>

definition binaryName :: "string \<Rightarrow> string \<Rightarrow> string" where
  "binaryName pf nm = (if pf = ''win32'' then nm @ ''.exe'' else nm)"

text \<open>
  The template string
  \<open>https://github.com/${githubOrgAndName}/releases/download/v${version}/${name}-v${version}-${platform}-x64.tar.gz\<close>.
\<close>

definition releaseUrl :: "string \<Rightarrow> string \<Rightarrow> string \<Rightarrow> string \<Rightarrow> string" where
  "releaseUrl orgAndName ver nm pf =
     ''https://github.com/'' @ orgAndName @ ''/releases/download/v'' @ ver @ ''/'' @ nm
       @ ''-v'' @ ver @ ''-'' @ pf @ ''-x64.tar.gz''"

text \<open>
  \<open>.replace(/^\//, '')\<close> removes one leading slash and
  \<open>.replace(/\.git$/, '')\<close> removes one \<open>.git\<close> at the very end.
\<close>

definition replace_leading_slash :: "string \<Rightarrow> string" where
  "replace_leading_slash s = (case s of c # cs \<Rightarrow> if c = CHR ''/'' then cs else s | [] \<Rightarrow> s)"

definition ends_with :: "string \<Rightarrow> string \<Rightarrow> bool" where
  "ends_with suffix s =
     (length suffix \<le> length s \<and> drop (length s - length suffix) s = suffix)"

definition replace_git_suffix :: "string \<Rightarrow> string" where
  "replace_git_suffix s = (if ends_with ''.git'' s then take (length s - 4) s else s)"

text \<open>
  Modelled from the spec: \<open>url.parse\<close> of Node is not code of this repository. The
  spec describes the path of the repository URL as what is left when scheme and
  host are stripped. For a URL \<open>scheme://host/path?query#hash\<close> the scheme is the
  longest prefix of letters, digits, \<open>.\<close>, \<open>+\<close> and \<open>-\<close> and is followed by
  \<open>://\<close>; the host runs to the first \<open>/\<close>, \<open>?\<close> or \<open>#\<close>; the pathname runs from
  there to the first \<open>?\<close> or \<open>#\<close>, and is \<open>/\<close> when that is empty and there is a
  host. A string with no such scheme is a path up to the first \<open>?\<close> or \<open>#\<close>.
  Where nothing is left the pathname is \<open>null\<close>, here \<open>None\<close>. The escaping
  that \<open>url.parse\<close> applies to characters such as spaces and braces is not
  modelled; the URLs considered below do not contain them.
\<close>

definition is_scheme_char :: "char \<Rightarrow> bool" where
  "is_scheme_char c =
     (c \<in> set ''abcdefghijklmnopqrstuvwxyzABCDEFGHIJKLMNOPQRSTUVWXYZ0123456789.+-'')"

definition urlParse_pathname :: "string \<Rightarrow> string option" where
  "urlParse_pathname url =
     (let proto = takeWhile is_scheme_char url;
          rest = drop (length proto) url
      in if proto \<noteq> [] \<and> take 3 rest = ''://''
         then
           (let rest1 = drop 3 rest;
                hostpart = takeWhile (\<lambda>c. c \<notin> set ''/?#'') rest1;
                path = takeWhile (\<lambda>c. c \<notin> set ''?#'') (drop (length hostpart) rest1)
            in if path \<noteq> [] then Some path
               else if hostpart \<noteq> [] then Some ''/'' else None)
         else
           (let path = takeWhile (\<lambda>c. c \<notin> set ''?#'') url
            in if path \<noteq> [] then Some path else None))"

text \<open>
  \<open>urlParse(repository).pathname.replace(/^\//, '').replace(/\.git$/, '')\<close>.
  Calling \<open>.replace\<close> on a \<open>null\<close> pathname raises a \<open>TypeError\<close>; the text of
  its message is the engine's.
\<close>

definition githubOrgAndName :: "string \<Rightarrow> thrown + string" where
  "githubOrgAndName repo =
     (case urlParse_pathname repo of
        None \<Rightarrow> Inl (Error ''TypeError'' ''Cannot read properties of null (reading replace)'')
      | Some pathname \<Rightarrow> Inr (replace_git_suffix (replace_leading_slash pathname)))"

text \<open>
  \<open>const { name } = toml.bin[0]\<close>: with no declared binary \<open>toml.bin[0]\<close> is
  undefined and the destructuring raises a \<open>TypeError\<close>; the text of its message
  is the engine's.
\<close>

definition first_bin_name :: "toml \<Rightarrow> thrown + string" where
  "first_bin_name t =
     (case bin t of
        [] \<Rightarrow> Inl (Error ''TypeError'' ''Cannot destructure property name of toml.bin[0] as it is undefined.'')
      | b # _ \<Rightarrow> Inr (bin_name b))"

section \<open>The launcher of bootstrap.ts\<close>

definition executeRustBinaryAction ::
  "host \<Rightarrow> GetArguments \<Rightarrow> world \<Rightarrow> (thrown + unit) \<times> world" where
  "executeRustBinaryAction h getArgs w0 =
     (if platform h \<noteq> ''win32'' \<and> platform h \<noteq> ''darwin'' \<and> platform h \<noteq> ''linux''
      then (Inl (Error ''Error'' (''Unsupported platform: '' @ platform h)), w0)
      else
        and_then (readFileSync_io h (path_join h (dirname h) ''../../Cargo.toml'') w0) (\<lambda>text w.
        and_then (tomlParse h text, w) (\<lambda>toml w.
        let tempDirectory = RUNNER_TEMP h;
            repo = package_repository (package toml);
            ver = package_version (package toml)
        in
        and_then (first_bin_name toml, w) (\<lambda>nm w.
        let binName = binaryName (platform h) nm in
        and_then (githubOrgAndName repo, w) (\<lambda>orgAndName w.
        let url = releaseUrl orgAndName ver nm (platform h) in
        (case tool_find orgAndName ver w of (found, w) \<Rightarrow>
        and_then
          (if found = ''''
           then
             and_then (downloadTool_io h url w) (\<lambda>downloadPath w.
             and_then (extractTar_io h downloadPath tempDirectory w) (\<lambda>extractPath w.
             let extractedFile = path_join h extractPath binName in
             cacheFile_io h extractedFile binName orgAndName ver w))
           else (Inr found, w)) (\<lambda>cachedPath w.
        let rustBinary = path_join h cachedPath nm in
        and_then (getArgs (core_accessors h), w) (\<lambda>args w.
        and_then (exec_io h rustBinary args w) (\<lambda>_ w.
        (Inr (), w))))))))))"

text \<open>
  \<open>invokeWith\<close>: the promise of \<open>executeRustBinaryAction\<close> with its \<open>catch\<close>
  handler, which calls \<open>setFailed(e.message)\<close> when \<open>e instanceof Error\<close> and does
  nothing otherwise.
\<close>

definition invokeWith :: "host \<Rightarrow> GetArguments \<Rightarrow> world \<Rightarrow> world" where
  "invokeWith h getArgs w0 =
     (case executeRustBinaryAction h getArgs w0 of
        (Inl e, w) \<Rightarrow> (case e of Error n msg \<Rightarrow> setFailed msg w | NonError v \<Rightarrow> w)
      | (Inr _, w) \<Rightarrow> w)"

section \<open>The older variant\<close>

definition execute_rust_binary_action ::
  "host \<Rightarrow> string \<Rightarrow> world \<Rightarrow> (thrown + unit) \<times> world" where
  "execute_rust_binary_action h rustCommand w0 =
     (if platform h \<noteq> ''win32'' \<and> platform h \<noteq> ''darwin'' \<and> platform h \<noteq> ''linux''
      then (Inl (Error ''Error'' (''Unsupported platform: '' @ platform h)), w0)
      else
        and_then (readFileSync_io h (path_join h (dirname h) ''../Cargo.toml'') w0) (\<lambda>text w.
        and_then (tomlParse h text, w) (\<lambda>toml w.
        let nm = package_name (package toml);
            repo = package_repository (package toml);
            ver = package_version (package toml)
        in
        and_then (githubOrgAndName repo, w) (\<lambda>orgAndName w.
        (case tool_find orgAndName ver w of (found, w) \<Rightarrow>
        and_then
          (if found = ''''
           then
             (let url = releaseUrl orgAndName ver nm (platform h) in
              and_then (downloadTool_io h url w) (\<lambda>downloadPath w.
              let tempDirectory = RUNNER_TEMP h in
              and_then (extractTar_io h downloadPath tempDirectory w) (\<lambda>extractPath w.
              let binName = binaryName (platform h) nm;
                  extractedFile = path_join h extractPath binName
              in cacheFile_io h extractedFile binName orgAndName ver w)))
           else (Inr found, w)) (\<lambda>cachedPath w.
        let rustBinary = path_join h cachedPath nm in
        and_then (exec_io h rustBinary [rustCommand] w) (\<lambda>_ w.
        (Inr (), w))))))))"

definition run :: "host \<Rightarrow> string \<Rightarrow> world \<Rightarrow> world" where
  "run h rustCommand w0 =
     (case execute_rust_binary_action h rustCommand w0 of
        (Inl e, w) \<Rightarrow> (case e of Error n msg \<Rightarrow> setFailed msg w | NonError v \<Rightarrow> w)
      | (Inr _, w) \<Rightarrow> w)"

section \<open>Call sites\<close>

text \<open>
  Every call site passes \<open>invokeWith\<close> a function that returns an array literal of
  string literals and \<open>getInput\<close> calls. The elements are evaluated from left to
  right, and the first \<open>getInput\<close> that throws ends the evaluation.
\<close>

datatype arg = Lit string | Input string bool

fun array_literal :: "arg list \<Rightarrow> accessors \<Rightarrow> thrown + string list" where
  "array_literal [] acc = Inr []"
| "array_literal (Lit s # rest) acc =
     (case array_literal rest acc of Inl e \<Rightarrow> Inl e | Inr vs \<Rightarrow> Inr (s # vs))"
| "array_literal (Input nm required # rest) acc =
     (case getInput acc nm required of
        Inl e \<Rightarrow> Inl e
      | Inr v \<Rightarrow> (case array_literal rest acc of Inl e \<Rightarrow> Inl e | Inr vs \<Rightarrow> Inr (v # vs)))"

text \<open>The call site that passes \<open>--path\<close> to \<open>update-builder\<close>.\<close>

definition update_builder_items :: "arg list" where
  "update_builder_items =
     [Lit ''update-builder'',
      Lit ''--path'', Input ''path'' True,
      Lit ''--buildpack-id'', Input ''buildpack-id'' True,
      Lit ''--buildpack-version'', Input ''buildpack-version'' True,
      Lit ''--buildpack-uri'', Input ''buildpack-uri'' True,
      Lit ''--builders'', Input ''builders'' True]"

definition update_builder_args :: GetArguments where
  "update_builder_args = array_literal update_builder_items"

text \<open>The call site of \<open>prepare-release\<close>; its second input is optional.\<close>

definition prepare_release_items :: "arg list" where
  "prepare_release_items =
     [Lit ''prepare-release'',
      Lit ''--bump'', Input ''bump'' True,
      Lit ''--repository-url'', Input ''repository-url'' False]"

definition prepare_release_args :: GetArguments where
  "prepare_release_args = array_literal prepare_release_items"

section \<open>Reading a trace\<close>

definition new_events :: "world \<Rightarrow> world \<Rightarrow> event list" where
  "new_events w w' = drop (length (trace w)) (trace w')"

fun is_download :: "event \<Rightarrow> bool" where
  "is_download (Download _) = True"
| "is_download _ = False"

fun is_extraction :: "event \<Rightarrow> bool" where
  "is_extraction (ExtractTar _ _) = True"
| "is_extraction _ = False"

fun is_registration :: "event \<Rightarrow> bool" where
  "is_registration (CacheFile _ _ _ _) = True"
| "is_registration _ = False"

fun is_spawn :: "event \<Rightarrow> bool" where
  "is_spawn (Exec _ _) = True"
| "is_spawn _ = False"

fun is_failure :: "event \<Rightarrow> bool" where
  "is_failure (SetFailed _) = True"
| "is_failure _ = False"

definition supported :: "string \<Rightarrow> bool" where
  "supported pf = (pf = ''win32'' \<or> pf = ''darwin'' \<or> pf = ''linux'')"

section \<open>Scenarios of an invocation\<close>

text \<open>
  The definitions of this section are not functions of the repository. They name
  the situations the properties below are about, in terms of what the host
  returns: the manifest the launcher sees, a lookup that finds a directory, a
  lookup that finds none, and a download, extraction and registration that all
  succeed.
\<close>

definition manifest_of :: "host \<Rightarrow> string \<Rightarrow> thrown + toml" where
  "manifest_of h rel =
     (case readFileSync h (path_join h (dirname h) rel) of
        Inl e \<Rightarrow> Inl e
      | Inr body \<Rightarrow> tomlParse h body)"

definition cache_hit :: "host \<Rightarrow> string \<Rightarrow> world \<Rightarrow> toml \<Rightarrow> string \<Rightarrow> string \<Rightarrow> bool" where
  "cache_hit h rel w t key dir =
     (supported (platform h) \<and> manifest_of h rel = Inr t
      \<and> githubOrgAndName (package_repository (package t)) = Inr key
      \<and> fst (tool_find key (package_version (package t)) w) = dir \<and> dir \<noteq> '''')"

definition cache_miss :: "host \<Rightarrow> string \<Rightarrow> world \<Rightarrow> toml \<Rightarrow> string \<Rightarrow> bool" where
  "cache_miss h rel w t key =
     (supported (platform h) \<and> manifest_of h rel = Inr t
      \<and> githubOrgAndName (package_repository (package t)) = Inr key
      \<and> fst (tool_find key (package_version (package t)) w) = '''')"

definition fetched ::
  "host \<Rightarrow> toml \<Rightarrow> string \<Rightarrow> string \<Rightarrow> string \<Rightarrow> string \<Rightarrow> string \<Rightarrow> bool" where
  "fetched h t nm key downloadPath extractPath dir =
     (downloadTool h (releaseUrl key (package_version (package t)) nm (platform h))
        = Inr downloadPath
      \<and> extractTar h downloadPath (RUNNER_TEMP h) = Inr extractPath
      \<and> cacheFile h (path_join h extractPath (binaryName (platform h) nm))
            (binaryName (platform h) nm) key (package_version (package t)) = Inr dir)"

text \<open>
  The last steps of both launchers in closed form: with the arguments at hand the
  binary is executed; when building the arguments threw, nothing is executed.
\<close>

definition launch ::
  "host \<Rightarrow> string \<Rightarrow> thrown + string list \<Rightarrow> world \<Rightarrow> (thrown + unit) \<times> world" where
  "launch h rustBinary r w =
     (case r of
        Inl e \<Rightarrow> (Inl e, w)
      | Inr args \<Rightarrow>
          ((case exec h rustBinary args of Inl e \<Rightarrow> Inl e | Inr _ \<Rightarrow> Inr ()),
           w\<lparr>trace := trace w @ [Exec rustBinary args]\<rparr>))"

text \<open>The library function an event is a call of.\<close>

fun operation :: "event \<Rightarrow> string" where
  "operation (ReadFile _) = ''readFileSync''"
| "operation (Find _ _) = ''find''"
| "operation (Download _) = ''downloadTool''"
| "operation (ExtractTar _ _) = ''extractTar''"
| "operation (CacheFile _ _ _ _) = ''cacheFile''"
| "operation (Exec _ _) = ''exec''"
| "operation (SetFailed _) = ''setFailed''"

text \<open>The sequences of calls an invocation of a launcher can make.\<close>

definition call_sequences :: "string list list" where
  "call_sequences =
     [[],
      [''readFileSync''],
      [''readFileSync'', ''find''],
      [''readFileSync'', ''find'', ''exec''],
      [''readFileSync'', ''find'', ''downloadTool''],
      [''readFileSync'', ''find'', ''downloadTool'', ''extractTar''],
      [''readFileSync'', ''find'', ''downloadTool'', ''extractTar'', ''cacheFile''],
      [''readFileSync'', ''find'', ''downloadTool'', ''extractTar'', ''cacheFile'', ''exec'']]"

text \<open>
  The first input of an array literal that is required and not supplied, if there
  is one.
\<close>

fun first_missing :: "(string \<Rightarrow> string option) \<Rightarrow> arg list \<Rightarrow> string option" where
  "first_missing ins [] = None"
| "first_missing ins (Lit s # rest) = first_missing ins rest"
| "first_missing ins (Input nm required # rest) =
     (if required \<and> (case ins nm of None \<Rightarrow> '''' | Some v \<Rightarrow> v) = ''''
      then Some nm else first_missing ins rest)"

text \<open>
  A well-formed segment of a repository URL (the host, the organization, the
  repository): not empty, and made of letters, digits, \<open>.\<close>, \<open>_\<close> and \<open>-\<close>.
\<close>

definition is_segment_char :: "char \<Rightarrow> bool" where
  "is_segment_char c =
     (c \<in> set ''abcdefghijklmnopqrstuvwxyzABCDEFGHIJKLMNOPQRSTUVWXYZ0123456789._-'')"

definition segment_ok :: "string \<Rightarrow> bool" where
  "segment_ok s = (s \<noteq> [] \<and> list_all is_segment_char s)"

text \<open>Several invocations on one runner, one after the other.\<close>

definition invocations :: "host \<Rightarrow> GetArguments list \<Rightarrow> world \<Rightarrow> world" where
  "invocations h gs w = foldl (\<lambda>w' g. invokeWith h g w') w gs"

definition runs :: "host \<Rightarrow> string list \<Rightarrow> world \<Rightarrow> world" where
  "runs h cs w = foldl (\<lambda>w' c. run h c w') w cs"

section \<open>Example hosts\<close>

text \<open>
  The manifest of the scenario of the spec, and a host on which every external
  call succeeds and the only workflow input supplied is \<open>bump\<close>.
\<close>

definition example_toml :: toml where
  "example_toml =
     \<lparr>package = \<lparr>package_name = ''mycli'',
                 package_repository = ''https://github.com/acme/mycli.git'',
                 package_version = ''1.2.3''\<rparr>,
      bin = [\<lparr>bin_name = ''mycli''\<rparr>]\<rparr>"

definition example_host :: "string \<Rightarrow> host" where
  "example_host pf =
     \<lparr>platform = pf,
      RUNNER_TEMP = Some ''/tmp'',
      dirname = ''/action/dist'',
      path_join = (\<lambda>a b. a @ ''/'' @ b),
      readFileSync = (\<lambda>p. Inr ''Cargo.toml''),
      tomlParse = (\<lambda>s. Inr example_toml),
      downloadTool = (\<lambda>u. Inr ''/tmp/archive''),
      extractTar = (\<lambda>f d. Inr ''/tmp/extracted''),
      cacheFile = (\<lambda>s f tool v. Inr (''/cache/'' @ tool @ ''/'' @ v)),
      exec = (\<lambda>c a. Inr 0),
      inputs = (\<lambda>n. if n = ''bump'' then Some ''patch'' else None),
      core_getBooleanInput = (\<lambda>n r. Inr False),
      core_getMultilineInput = (\<lambda>n r. Inr [])\<rparr>"

text \<open>The same host, but the download is rejected with an \<open>Error\<close>.\<close>

definition offline_host :: host where
  "offline_host =
     (example_host ''linux'')
       \<lparr>downloadTool := (\<lambda>u. Inl (Error ''HTTPError'' ''Unexpected HTTP response: 404''))\<rparr>"

text \<open>The same host, but the download is rejected with a string.\<close>

definition string_throwing_host :: host where
  "string_throwing_host =
     (example_host ''linux'')\<lparr>downloadTool := (\<lambda>u. Inl (NonError ''connection reset''))\<rparr>"

text \<open>The same host, but the binary exits with a failure, which \<open>exec\<close> rejects.\<close>

definition exec_failing_host :: host where
  "exec_failing_host =
     (example_host ''linux'')
       \<lparr>exec := (\<lambda>c a. Inl (Error ''Error'' ''The process failed with exit code 1''))\<rparr>"

definition empty_world :: world where
  "empty_world = \<lparr>tool_cache = (\<lambda>k. None), trace = []\<rparr>"

definition cached_world :: world where
  "cached_world =
     \<lparr>tool_cache = (\<lambda>k. if k = (''acme/mycli'', ''1.2.3'')
                          then Some ''/cache/acme/mycli/1.2.3'' else None),
      trace = []\<rparr>"

section \<open>Lemmas about the steps\<close>

lemma and_then_Inl: "and_then (Inl e, w) k = (Inl e, w)"
  by (simp add: and_then_def)

lemma and_then_Inr: "and_then (Inr x, w) k = k x w"
  by (simp add: and_then_def)

lemma and_then_pair:
  "and_then (r, w) k = (case r of Inl e \<Rightarrow> (Inl e, w) | Inr x \<Rightarrow> k x w)"
  by (simp add: and_then_def split: sum.splits)

lemma supported_cond:
  "(pf \<noteq> ''win32'' \<and> pf \<noteq> ''darwin'' \<and> pf \<noteq> ''linux'') = (\<not> supported pf)"
  by (simp add: supported_def)

lemmas io_defs = readFileSync_io_def downloadTool_io_def extractTar_io_def exec_io_def
  tool_find_def cacheFile_io_def log_event_def setFailed_def

lemma manifest_ofD:
  "manifest_of h rel = Inr t \<Longrightarrow>
   \<exists>body. readFileSync h (path_join h (dirname h) rel) = Inr body \<and> tomlParse h body = Inr t"
  by (auto simp: manifest_of_def split: sum.splits)

lemma new_events_append: "trace w' = trace w @ evs \<Longrightarrow> new_events w w' = evs"
  by (simp add: new_events_def)

lemma bootstrap_hit:
  assumes "cache_hit h ''../../Cargo.toml'' w t key dir"
    and "first_bin_name t = Inr nm"
  shows "executeRustBinaryAction h g w =
     launch h (path_join h dir nm) (g (core_accessors h))
       (w\<lparr>trace := trace w @ [ReadFile (path_join h (dirname h) ''../../Cargo.toml''),
                     Find key (package_version (package t))]\<rparr>)"
proof -
  from assms(1) obtain body where
    "readFileSync h (path_join h (dirname h) ''../../Cargo.toml'') = Inr body"
    "tomlParse h body = Inr t"
    by (auto simp: cache_hit_def dest: manifest_ofD)
  with assms show ?thesis
    unfolding executeRustBinaryAction_def supported_cond
    by (auto simp: cache_hit_def and_then_Inl and_then_Inr io_defs launch_def Let_def
        split: sum.splits option.splits)
qed

lemma bootstrap_miss:
  assumes "cache_miss h ''../../Cargo.toml'' w t key"
    and "first_bin_name t = Inr nm"
    and "fetched h t nm key downloadPath extractPath dir"
  shows "executeRustBinaryAction h g w =
     launch h (path_join h dir nm) (g (core_accessors h))
       (w\<lparr>tool_cache := (tool_cache w)((key, package_version (package t)) \<mapsto> dir),
          trace := trace w @ [ReadFile (path_join h (dirname h) ''../../Cargo.toml''),
                     Find key (package_version (package t)),
                     Download (releaseUrl key (package_version (package t)) nm (platform h)),
                     ExtractTar downloadPath (RUNNER_TEMP h),
                     CacheFile (path_join h extractPath (binaryName (platform h) nm))
                       (binaryName (platform h) nm) key (package_version (package t))]\<rparr>)"
proof -
  from assms(1) obtain body where
    "readFileSync h (path_join h (dirname h) ''../../Cargo.toml'') = Inr body"
    "tomlParse h body = Inr t"
    by (auto simp: cache_miss_def dest: manifest_ofD)
  with assms show ?thesis
    unfolding executeRustBinaryAction_def supported_cond
    by (auto simp: cache_miss_def fetched_def and_then_Inl and_then_Inr io_defs launch_def
        Let_def split: sum.splits option.splits)
qed

lemma variant_hit:
  assumes "cache_hit h ''../Cargo.toml'' w t key dir"
  shows "execute_rust_binary_action h rustCommand w =
     launch h (path_join h dir (package_name (package t))) (Inr [rustCommand])
       (w\<lparr>trace := trace w @ [ReadFile (path_join h (dirname h) ''../Cargo.toml''),
                     Find key (package_version (package t))]\<rparr>)"
proof -
  from assms(1) obtain body where
    "readFileSync h (path_join h (dirname h) ''../Cargo.toml'') = Inr body"
    "tomlParse h body = Inr t"
    by (auto simp: cache_hit_def dest: manifest_ofD)
  with assms show ?thesis
    unfolding execute_rust_binary_action_def supported_cond
    by (auto simp: cache_hit_def and_then_Inl and_then_Inr io_defs launch_def Let_def
        split: sum.splits option.splits)
qed

lemma variant_miss:
  assumes "cache_miss h ''../Cargo.toml'' w t key"
    and "fetched h t (package_name (package t)) key downloadPath extractPath dir"
  shows "execute_rust_binary_action h rustCommand w =
     launch h (path_join h dir (package_name (package t))) (Inr [rustCommand])
       (w\<lparr>tool_cache := (tool_cache w)((key, package_version (package t)) \<mapsto> dir),
          trace := trace w @ [ReadFile (path_join h (dirname h) ''../Cargo.toml''),
                     Find key (package_version (package t)),
                     Download (releaseUrl key (package_version (package t))
                       (package_name (package t)) (platform h)),
                     ExtractTar downloadPath (RUNNER_TEMP h),
                     CacheFile
                       (path_join h extractPath
                          (binaryName (platform h) (package_name (package t))))
                       (binaryName (platform h) (package_name (package t))) key
                       (package_version (package t))]\<rparr>)"
proof -
  from assms(1) obtain body where
    "readFileSync h (path_join h (dirname h) ''../Cargo.toml'') = Inr body"
    "tomlParse h body = Inr t"
    by (auto simp: cache_miss_def dest: manifest_ofD)
  with assms show ?thesis
    unfolding execute_rust_binary_action_def supported_cond
    by (auto simp: cache_miss_def fetched_def and_then_Inl and_then_Inr io_defs launch_def
        Let_def split: sum.splits option.splits)
qed

text \<open>Whatever happens, an invocation makes one of the call sequences, and never reports.\<close>

lemma bootstrap_events:
  "\<exists>evs. trace (snd (executeRustBinaryAction h g w)) = trace w @ evs
     \<and> map operation evs \<in> set call_sequences
     \<and> ((\<exists>e. g (core_accessors h) = Inl e) \<longrightarrow> filter is_spawn evs = [])"
  unfolding executeRustBinaryAction_def supported_cond call_sequences_def
  by (simp add: io_defs Let_def and_then_pair first_bin_name_def split: sum.splits list.splits)

lemma variant_events:
  "\<exists>evs. trace (snd (execute_rust_binary_action h c w)) = trace w @ evs
     \<and> map operation evs \<in> set call_sequences"
  unfolding execute_rust_binary_action_def supported_cond call_sequences_def
  by (simp add: io_defs Let_def and_then_pair split: sum.splits)

lemma call_sequences_distinct: "ops \<in> set call_sequences \<Longrightarrow> distinct ops"
  by (auto simp: call_sequences_def)

lemma call_sequences_no_setFailed:
  "map operation evs \<in> set call_sequences \<Longrightarrow> filter is_failure evs = []"
proof -
  assume a: "map operation evs \<in> set call_sequences"
  have "\<not> is_failure e" if "e \<in> set evs" for e
  proof
    assume "is_failure e"
    then have "operation e = ''setFailed''" by (cases e) simp_all
    with that have "''setFailed'' \<in> set (map operation evs)" by force
    with a show False by (auto simp: call_sequences_def)
  qed
  then show ?thesis by (simp add: filter_empty_conv)
qed

section \<open>Lemmas about the entry points\<close>

lemma invokeWith_trace:
  "trace (invokeWith h g w) =
     trace (snd (executeRustBinaryAction h g w))
       @ (case fst (executeRustBinaryAction h g w) of
            Inl (Error n msg) \<Rightarrow> [SetFailed msg] | _ \<Rightarrow> [])"
  by (simp add: invokeWith_def setFailed_def log_event_def
      split: prod.splits sum.splits thrown.splits)

lemma invokeWith_cache:
  "tool_cache (invokeWith h g w) = tool_cache (snd (executeRustBinaryAction h g w))"
  by (simp add: invokeWith_def setFailed_def log_event_def
      split: prod.splits sum.splits thrown.splits)

lemma run_trace:
  "trace (run h c w) =
     trace (snd (execute_rust_binary_action h c w))
       @ (case fst (execute_rust_binary_action h c w) of
            Inl (Error n msg) \<Rightarrow> [SetFailed msg] | _ \<Rightarrow> [])"
  by (simp add: run_def setFailed_def log_event_def
      split: prod.splits sum.splits thrown.splits)

lemma run_cache:
  "tool_cache (run h c w) = tool_cache (snd (execute_rust_binary_action h c w))"
  by (simp add: run_def setFailed_def log_event_def
      split: prod.splits sum.splits thrown.splits)

lemma launch_trace:
  "trace (snd (launch h p r w)) =
     trace w @ (case r of Inl e \<Rightarrow> [] | Inr args \<Rightarrow> [Exec p args])"
  by (simp add: launch_def split: sum.splits)

lemma launch_cache: "tool_cache (snd (launch h p r w)) = tool_cache w"
  by (simp add: launch_def split: sum.splits)

lemma cache_hit_cong:
  "cache_hit h rel w t key dir \<Longrightarrow> tool_cache w' = tool_cache w \<Longrightarrow> cache_hit h rel w' t key dir"
  by (simp add: cache_hit_def tool_find_def)

text \<open>An invocation that finds the directory leaves the cache as it is and downloads nothing.\<close>

lemma bootstrap_hit_step:
  assumes "cache_hit h ''../../Cargo.toml'' w t key dir" and "first_bin_name t = Inr nm"
  shows "cache_hit h ''../../Cargo.toml'' (invokeWith h g w) t key dir
       \<and> (\<exists>evs. trace (invokeWith h g w) = trace w @ evs \<and> filter is_download evs = []
              \<and> (\<forall>p a. Exec p a \<in> set evs \<longrightarrow> p = path_join h dir nm))"
proof -
  have c: "tool_cache (invokeWith h g w) = tool_cache w"
    by (simp add: invokeWith_cache bootstrap_hit [OF assms] launch_cache)
  have "\<exists>evs. trace (invokeWith h g w) = trace w @ evs \<and> filter is_download evs = []
              \<and> (\<forall>p a. Exec p a \<in> set evs \<longrightarrow> p = path_join h dir nm)"
    by (simp add: invokeWith_trace bootstrap_hit [OF assms] launch_trace
        split: sum.splits thrown.splits)
  with c assms(1) show ?thesis by (simp add: cache_hit_cong)
qed

lemma variant_hit_step:
  assumes "cache_hit h ''../Cargo.toml'' w t key dir"
  shows "cache_hit h ''../Cargo.toml'' (run h c w) t key dir
       \<and> (\<exists>evs. trace (run h c w) = trace w @ evs \<and> filter is_download evs = []
              \<and> (\<forall>p a. Exec p a \<in> set evs \<longrightarrow> p = path_join h dir (package_name (package t))))"
proof -
  have c: "tool_cache (run h c w) = tool_cache w"
    by (simp add: run_cache variant_hit [OF assms] launch_cache)
  have "\<exists>evs. trace (run h c w) = trace w @ evs \<and> filter is_download evs = []
              \<and> (\<forall>p a. Exec p a \<in> set evs \<longrightarrow> p = path_join h dir (package_name (package t)))"
    by (simp add: run_trace variant_hit [OF assms] launch_trace
        split: sum.splits thrown.splits)
  with c assms(1) show ?thesis by (simp add: cache_hit_cong)
qed

lemma bootstrap_hit_invocations:
  assumes "first_bin_name t = Inr nm"
  shows "cache_hit h ''../../Cargo.toml'' w t key dir \<Longrightarrow>
         \<exists>evs. trace (invocations h gs w) = trace w @ evs \<and> filter is_download evs = []
              \<and> (\<forall>p a. Exec p a \<in> set evs \<longrightarrow> p = path_join h dir nm)"
proof (induction gs arbitrary: w)
  case Nil
  then show ?case by (simp add: invocations_def)
next
  case (Cons g gs)
  from bootstrap_hit_step [OF Cons.prems assms, of g] obtain evs1 where
    hit: "cache_hit h ''../../Cargo.toml'' (invokeWith h g w) t key dir"
    and e1: "trace (invokeWith h g w) = trace w @ evs1" "filter is_download evs1 = []"
      "\<forall>p a. Exec p a \<in> set evs1 \<longrightarrow> p = path_join h dir nm"
    by blast
  from Cons.IH [OF hit] obtain evs2 where
    e2: "trace (invocations h gs (invokeWith h g w)) = trace (invokeWith h g w) @ evs2"
      "filter is_download evs2 = []"
      "\<forall>p a. Exec p a \<in> set evs2 \<longrightarrow> p = path_join h dir nm"
    by blast
  have "invocations h (g # gs) w = invocations h gs (invokeWith h g w)"
    by (simp add: invocations_def)
  with e1 e2 have "trace (invocations h (g # gs) w) = trace w @ (evs1 @ evs2)
      \<and> filter is_download (evs1 @ evs2) = []
      \<and> (\<forall>p a. Exec p a \<in> set (evs1 @ evs2) \<longrightarrow> p = path_join h dir nm)"
    by auto
  then show ?case by blast
qed

lemma variant_hit_runs:
  "cache_hit h ''../Cargo.toml'' w t key dir \<Longrightarrow>
         \<exists>evs. trace (runs h cs w) = trace w @ evs \<and> filter is_download evs = []
              \<and> (\<forall>p a. Exec p a \<in> set evs \<longrightarrow> p = path_join h dir (package_name (package t)))"
proof (induction cs arbitrary: w)
  case Nil
  then show ?case by (simp add: runs_def)
next
  case (Cons c cs)
  from variant_hit_step [OF Cons.prems, of c] obtain evs1 where
    hit: "cache_hit h ''../Cargo.toml'' (run h c w) t key dir"
    and e1: "trace (run h c w) = trace w @ evs1" "filter is_download evs1 = []"
      "\<forall>p a. Exec p a \<in> set evs1 \<longrightarrow> p = path_join h dir (package_name (package t))"
    by blast
  from Cons.IH [OF hit] obtain evs2 where
    e2: "trace (runs h cs (run h c w)) = trace (run h c w) @ evs2"
      "filter is_download evs2 = []"
      "\<forall>p a. Exec p a \<in> set evs2 \<longrightarrow> p = path_join h dir (package_name (package t))"
    by blast
  have "runs h (c # cs) w = runs h cs (run h c w)"
    by (simp add: runs_def)
  with e1 e2 have "trace (runs h (c # cs) w) = trace w @ (evs1 @ evs2)
      \<and> filter is_download (evs1 @ evs2) = []
      \<and> (\<forall>p a. Exec p a \<in> set (evs1 @ evs2)
            \<longrightarrow> p = path_join h dir (package_name (package t)))"
    by auto
  then show ?case by blast
qed

text \<open>A lookup that finds nothing is followed by one attempt to download, whatever comes next.\<close>

lemma bootstrap_miss_download:
  assumes "cache_miss h ''../../Cargo.toml'' w t key" and "first_bin_name t = Inr nm"
  shows "\<exists>evs. trace (snd (executeRustBinaryAction h g w)) = trace w @ evs
     \<and> filter is_download evs
         = [Download (releaseUrl key (package_version (package t)) nm (platform h))]"
proof -
  from assms(1) obtain body where
    "readFileSync h (path_join h (dirname h) ''../../Cargo.toml'') = Inr body"
    "tomlParse h body = Inr t"
    by (auto simp: cache_miss_def dest: manifest_ofD)
  with assms show ?thesis
    unfolding executeRustBinaryAction_def supported_cond
    by (simp add: cache_miss_def and_then_pair io_defs Let_def split: sum.splits)
qed

lemma variant_miss_download:
  assumes "cache_miss h ''../Cargo.toml'' w t key"
  shows "\<exists>evs. trace (snd (execute_rust_binary_action h c w)) = trace w @ evs
     \<and> filter is_download evs
         = [Download (releaseUrl key (package_version (package t))
              (package_name (package t)) (platform h))]"
proof -
  from assms(1) obtain body where
    "readFileSync h (path_join h (dirname h) ''../Cargo.toml'') = Inr body"
    "tomlParse h body = Inr t"
    by (auto simp: cache_miss_def dest: manifest_ofD)
  with assms show ?thesis
    unfolding execute_rust_binary_action_def supported_cond
    by (simp add: cache_miss_def and_then_pair io_defs Let_def split: sum.splits)
qed

text \<open>An array literal with a required input that is missing throws, naming that input.\<close>

lemma array_literal_missing:
  "first_missing (inputs h) items = Some n \<Longrightarrow>
   array_literal items (core_accessors h)
     = Inl (Error ''Error'' (''Input required and not supplied: '' @ n))"
proof (induction items)
  case Nil
  then show ?case by simp
next
  case (Cons a items)
  show ?case
  proof (cases a)
    case (Lit s)
    with Cons show ?thesis by simp
  next
    case (Input nm required)
    with Cons show ?thesis
      by (auto simp: core_accessors_def core_getInput_def Let_def split: if_splits)
  qed
qed

text \<open>A download that is rejected ends the invocation there.\<close>

lemma bootstrap_download_fails:
  assumes "cache_miss h ''../../Cargo.toml'' w t key" and "first_bin_name t = Inr nm"
    and "downloadTool h (releaseUrl key (package_version (package t)) nm (platform h)) = Inl e"
  shows "executeRustBinaryAction h g w =
     (Inl e, w\<lparr>trace := trace w @ [ReadFile (path_join h (dirname h) ''../../Cargo.toml''),
                     Find key (package_version (package t)),
                     Download (releaseUrl key (package_version (package t)) nm (platform h))]\<rparr>)"
proof -
  from assms(1) obtain body where
    "readFileSync h (path_join h (dirname h) ''../../Cargo.toml'') = Inr body"
    "tomlParse h body = Inr t"
    by (auto simp: cache_miss_def dest: manifest_ofD)
  with assms show ?thesis
    unfolding executeRustBinaryAction_def supported_cond
    by (simp add: cache_miss_def and_then_Inl and_then_Inr io_defs Let_def)
qed

lemma variant_download_fails:
  assumes "cache_miss h ''../Cargo.toml'' w t key"
    and "downloadTool h (releaseUrl key (package_version (package t))
           (package_name (package t)) (platform h)) = Inl e"
  shows "execute_rust_binary_action h c w =
     (Inl e, w\<lparr>trace := trace w @ [ReadFile (path_join h (dirname h) ''../Cargo.toml''),
                     Find key (package_version (package t)),
                     Download (releaseUrl key (package_version (package t))
                       (package_name (package t)) (platform h))]\<rparr>)"
proof -
  from assms(1) obtain body where
    "readFileSync h (path_join h (dirname h) ''../Cargo.toml'') = Inr body"
    "tomlParse h body = Inr t"
    by (auto simp: cache_miss_def dest: manifest_ofD)
  with assms show ?thesis
    unfolding execute_rust_binary_action_def supported_cond
    by (simp add: cache_miss_def and_then_Inl and_then_Inr io_defs Let_def)
qed

text \<open>
  A step that throws ends the action there: the action rejects with the value
  thrown, and the calls made are those up to and including the failing one.
\<close>

lemma bootstrap_read_fails:
  assumes "supported (platform h)"
    and "readFileSync h (path_join h (dirname h) ''../../Cargo.toml'') = Inl e"
  shows "executeRustBinaryAction h g w =
     (Inl e, w\<lparr>trace := trace w @ [ReadFile (path_join h (dirname h) ''../../Cargo.toml'')]\<rparr>)"
  using assms unfolding executeRustBinaryAction_def supported_cond
  by (simp add: and_then_Inl io_defs)

lemma bootstrap_parse_fails:
  assumes "supported (platform h)"
    and "readFileSync h (path_join h (dirname h) ''../../Cargo.toml'') = Inr body"
    and "tomlParse h body = Inl e"
  shows "executeRustBinaryAction h g w =
     (Inl e, w\<lparr>trace := trace w @ [ReadFile (path_join h (dirname h) ''../../Cargo.toml'')]\<rparr>)"
  using assms unfolding executeRustBinaryAction_def supported_cond
  by (simp add: and_then_Inl and_then_Inr io_defs)

lemma bootstrap_bin_fails:
  assumes "supported (platform h)"
    and "manifest_of h ''../../Cargo.toml'' = Inr t"
    and "first_bin_name t = Inl e"
  shows "executeRustBinaryAction h g w =
     (Inl e, w\<lparr>trace := trace w @ [ReadFile (path_join h (dirname h) ''../../Cargo.toml'')]\<rparr>)"
proof -
  from assms(2) obtain body where
    "readFileSync h (path_join h (dirname h) ''../../Cargo.toml'') = Inr body"
    "tomlParse h body = Inr t"
    by (auto dest: manifest_ofD)
  with assms show ?thesis
    unfolding executeRustBinaryAction_def supported_cond
    by (simp add: and_then_Inl and_then_Inr io_defs Let_def)
qed

lemma bootstrap_key_fails:
  assumes "supported (platform h)"
    and "manifest_of h ''../../Cargo.toml'' = Inr t"
    and "first_bin_name t = Inr nm"
    and "githubOrgAndName (package_repository (package t)) = Inl e"
  shows "executeRustBinaryAction h g w =
     (Inl e, w\<lparr>trace := trace w @ [ReadFile (path_join h (dirname h) ''../../Cargo.toml'')]\<rparr>)"
proof -
  from assms(2) obtain body where
    "readFileSync h (path_join h (dirname h) ''../../Cargo.toml'') = Inr body"
    "tomlParse h body = Inr t"
    by (auto dest: manifest_ofD)
  with assms show ?thesis
    unfolding executeRustBinaryAction_def supported_cond
    by (simp add: and_then_Inl and_then_Inr io_defs Let_def)
qed

lemma bootstrap_extract_fails:
  assumes "cache_miss h ''../../Cargo.toml'' w t key" and "first_bin_name t = Inr nm"
    and "downloadTool h (releaseUrl key (package_version (package t)) nm (platform h))
           = Inr downloadPath"
    and "extractTar h downloadPath (RUNNER_TEMP h) = Inl e"
  shows "executeRustBinaryAction h g w =
     (Inl e, w\<lparr>trace := trace w @ [ReadFile (path_join h (dirname h) ''../../Cargo.toml''),
                     Find key (package_version (package t)),
                     Download (releaseUrl key (package_version (package t)) nm (platform h)),
                     ExtractTar downloadPath (RUNNER_TEMP h)]\<rparr>)"
proof -
  from assms(1) obtain body where
    "readFileSync h (path_join h (dirname h) ''../../Cargo.toml'') = Inr body"
    "tomlParse h body = Inr t"
    by (auto simp: cache_miss_def dest: manifest_ofD)
  with assms show ?thesis
    unfolding executeRustBinaryAction_def supported_cond
    by (simp add: cache_miss_def and_then_Inl and_then_Inr io_defs Let_def)
qed

lemma bootstrap_register_fails:
  assumes "cache_miss h ''../../Cargo.toml'' w t key" and "first_bin_name t = Inr nm"
    and "downloadTool h (releaseUrl key (package_version (package t)) nm (platform h))
           = Inr downloadPath"
    and "extractTar h downloadPath (RUNNER_TEMP h) = Inr extractPath"
    and "cacheFile h (path_join h extractPath (binaryName (platform h) nm))
           (binaryName (platform h) nm) key (package_version (package t)) = Inl e"
  shows "executeRustBinaryAction h g w =
     (Inl e, w\<lparr>trace := trace w @ [ReadFile (path_join h (dirname h) ''../../Cargo.toml''),
                     Find key (package_version (package t)),
                     Download (releaseUrl key (package_version (package t)) nm (platform h)),
                     ExtractTar downloadPath (RUNNER_TEMP h),
                     CacheFile (path_join h extractPath (binaryName (platform h) nm))
                       (binaryName (platform h) nm) key (package_version (package t))]\<rparr>)"
proof -
  from assms(1) obtain body where
    "readFileSync h (path_join h (dirname h) ''../../Cargo.toml'') = Inr body"
    "tomlParse h body = Inr t"
    by (auto simp: cache_miss_def dest: manifest_ofD)
  with assms show ?thesis
    unfolding executeRustBinaryAction_def supported_cond
    by (simp add: cache_miss_def and_then_Inl and_then_Inr io_defs Let_def)
qed

lemma variant_read_fails:
  assumes "supported (platform h)"
    and "readFileSync h (path_join h (dirname h) ''../Cargo.toml'') = Inl e"
  shows "execute_rust_binary_action h c w =
     (Inl e, w\<lparr>trace := trace w @ [ReadFile (path_join h (dirname h) ''../Cargo.toml'')]\<rparr>)"
  using assms unfolding execute_rust_binary_action_def supported_cond
  by (simp add: and_then_Inl io_defs)

lemma variant_parse_fails:
  assumes "supported (platform h)"
    and "readFileSync h (path_join h (dirname h) ''../Cargo.toml'') = Inr body"
    and "tomlParse h body = Inl e"
  shows "execute_rust_binary_action h c w =
     (Inl e, w\<lparr>trace := trace w @ [ReadFile (path_join h (dirname h) ''../Cargo.toml'')]\<rparr>)"
  using assms unfolding execute_rust_binary_action_def supported_cond
  by (simp add: and_then_Inl and_then_Inr io_defs)

lemma variant_key_fails:
  assumes "supported (platform h)"
    and "manifest_of h ''../Cargo.toml'' = Inr t"
    and "githubOrgAndName (package_repository (package t)) = Inl e"
  shows "execute_rust_binary_action h c w =
     (Inl e, w\<lparr>trace := trace w @ [ReadFile (path_join h (dirname h) ''../Cargo.toml'')]\<rparr>)"
proof -
  from assms(2) obtain body where
    "readFileSync h (path_join h (dirname h) ''../Cargo.toml'') = Inr body"
    "tomlParse h body = Inr t"
    by (auto dest: manifest_ofD)
  with assms show ?thesis
    unfolding execute_rust_binary_action_def supported_cond
    by (simp add: and_then_Inl and_then_Inr io_defs Let_def)
qed

lemma variant_extract_fails:
  assumes "cache_miss h ''../Cargo.toml'' w t key"
    and "downloadTool h (releaseUrl key (package_version (package t))
           (package_name (package t)) (platform h)) = Inr downloadPath"
    and "extractTar h downloadPath (RUNNER_TEMP h) = Inl e"
  shows "execute_rust_binary_action h c w =
     (Inl e, w\<lparr>trace := trace w @ [ReadFile (path_join h (dirname h) ''../Cargo.toml''),
                     Find key (package_version (package t)),
                     Download (releaseUrl key (package_version (package t))
                       (package_name (package t)) (platform h)),
                     ExtractTar downloadPath (RUNNER_TEMP h)]\<rparr>)"
proof -
  from assms(1) obtain body where
    "readFileSync h (path_join h (dirname h) ''../Cargo.toml'') = Inr body"
    "tomlParse h body = Inr t"
    by (auto simp: cache_miss_def dest: manifest_ofD)
  with assms show ?thesis
    unfolding execute_rust_binary_action_def supported_cond
    by (simp add: cache_miss_def and_then_Inl and_then_Inr io_defs Let_def)
qed

lemma variant_register_fails:
  assumes "cache_miss h ''../Cargo.toml'' w t key"
    and "downloadTool h (releaseUrl key (package_version (package t))
           (package_name (package t)) (platform h)) = Inr downloadPath"
    and "extractTar h downloadPath (RUNNER_TEMP h) = Inr extractPath"
    and "cacheFile h
           (path_join h extractPath (binaryName (platform h) (package_name (package t))))
           (binaryName (platform h) (package_name (package t))) key
           (package_version (package t)) = Inl e"
  shows "execute_rust_binary_action h c w =
     (Inl e, w\<lparr>trace := trace w @ [ReadFile (path_join h (dirname h) ''../Cargo.toml''),
                     Find key (package_version (package t)),
                     Download (releaseUrl key (package_version (package t))
                       (package_name (package t)) (platform h)),
                     ExtractTar downloadPath (RUNNER_TEMP h),
                     CacheFile
                       (path_join h extractPath
                          (binaryName (platform h) (package_name (package t))))
                       (binaryName (platform h) (package_name (package t))) key
                       (package_version (package t))]\<rparr>)"
proof -
  from assms(1) obtain body where
    "readFileSync h (path_join h (dirname h) ''../Cargo.toml'') = Inr body"
    "tomlParse h body = Inr t"
    by (auto simp: cache_miss_def dest: manifest_ofD)
  with assms show ?thesis
    unfolding execute_rust_binary_action_def supported_cond
    by (simp add: cache_miss_def and_then_Inl and_then_Inr io_defs Let_def)
qed

text \<open>An execution happens only with the cached directory at hand and the arguments built.\<close>

lemma hit_or_fetched_intro:
  assumes "supported (platform h)"
    and "readFileSync h (path_join h (dirname h) rel) = Inr body"
    and "tomlParse h body = Inr t"
    and "githubOrgAndName (package_repository (package t)) = Inr key"
    and "(case tool_cache w (key, package_version (package t)) of None \<Rightarrow> '''' | Some d \<Rightarrow> d) = found"
    and "found \<noteq> '''' \<and> dir = found
       \<or> found = ''''
         \<and> downloadTool h (releaseUrl key (package_version (package t)) nm (platform h)) = Inr dl
         \<and> extractTar h dl (RUNNER_TEMP h) = Inr ex
         \<and> cacheFile h (path_join h ex (binaryName (platform h) nm))
              (binaryName (platform h) nm) key (package_version (package t)) = Inr dir"
  shows "cache_hit h rel w t key dir
      \<or> cache_miss h rel w t key \<and> fetched h t nm key dl ex dir"
  using assms
  by (auto simp: cache_hit_def cache_miss_def fetched_def manifest_of_def tool_find_def)

lemma variant_exec_origin:
  assumes "Exec p a \<in> set (new_events w (snd (execute_rust_binary_action h c w)))"
  shows "\<exists>t key dir dl ex. a = [c] \<and> p = path_join h dir (package_name (package t)) \<and>
     (cache_hit h ''../Cargo.toml'' w t key dir
      \<or> cache_miss h ''../Cargo.toml'' w t key
            \<and> fetched h t (package_name (package t)) key dl ex dir)"
  using assms
  unfolding execute_rust_binary_action_def supported_cond
  apply (auto simp: io_defs Let_def and_then_pair new_events_def
      split: sum.splits if_splits)
       apply (metis hit_or_fetched_intro)+
  done

lemma bootstrap_exec_origin:
  assumes "Exec p a \<in> set (new_events w (snd (executeRustBinaryAction h g w)))"
  shows "\<exists>t nm key dir dl ex. first_bin_name t = Inr nm \<and> g (core_accessors h) = Inr a
      \<and> p = path_join h dir nm \<and>
     (cache_hit h ''../../Cargo.toml'' w t key dir
      \<or> cache_miss h ''../../Cargo.toml'' w t key \<and> fetched h t nm key dl ex dir)"
  using assms
  unfolding executeRustBinaryAction_def supported_cond
  apply (auto simp: io_defs Let_def and_then_pair new_events_def
      split: sum.splits if_splits)
       apply (metis hit_or_fetched_intro)+
  done

section \<open>The example hosts, evaluated\<close>

lemma trace_empty_world: "trace empty_world = []"
  by (simp add: empty_world_def)

lemma example_key: "githubOrgAndName ''https://github.com/acme/mycli.git'' = Inr ''acme/mycli''"
  by (simp add: githubOrgAndName_def urlParse_pathname_def is_scheme_char_def Let_def
      replace_leading_slash_def replace_git_suffix_def ends_with_def)

lemma example_bin: "first_bin_name example_toml = Inr ''mycli''"
  by (simp add: first_bin_name_def example_toml_def)

lemma example_manifest: "manifest_of (example_host pf) rel = Inr example_toml"
  by (simp add: manifest_of_def example_host_def)

lemma example_miss:
  "supported pf \<Longrightarrow> cache_miss (example_host pf) rel empty_world example_toml ''acme/mycli''"
  by (simp add: cache_miss_def example_manifest tool_find_def empty_world_def)
     (simp add: example_host_def example_toml_def example_key)

lemma example_hit:
  "supported pf \<Longrightarrow>
   cache_hit (example_host pf) rel cached_world example_toml ''acme/mycli''
     ''/cache/acme/mycli/1.2.3''"
  by (simp add: cache_hit_def example_manifest tool_find_def cached_world_def)
     (simp add: example_host_def example_toml_def example_key)

lemma example_fetched:
  "fetched (example_host pf) example_toml ''mycli'' ''acme/mycli'' ''/tmp/archive''
     ''/tmp/extracted'' ''/cache/acme/mycli/1.2.3''"
  by (simp add: fetched_def example_host_def example_toml_def)

lemma offline_miss:
  "cache_miss offline_host rel empty_world example_toml ''acme/mycli''"
  using example_miss [of "''linux''" rel]
  by (simp add: cache_miss_def offline_host_def manifest_of_def example_host_def supported_def)

lemma string_throwing_miss:
  "cache_miss string_throwing_host rel empty_world example_toml ''acme/mycli''"
  using example_miss [of "''linux''" rel]
  by (simp add: cache_miss_def string_throwing_host_def manifest_of_def example_host_def
      supported_def)

lemma prepare_release_example:
  "prepare_release_args (core_accessors (example_host pf))
     = Inr [''prepare-release'', ''--bump'', ''patch'', ''--repository-url'', '''']"
  by (simp add: prepare_release_args_def prepare_release_items_def core_accessors_def
      core_getInput_def example_host_def trim_def is_space_def Let_def)

lemma update_builder_example:
  "first_missing (inputs (example_host pf)) update_builder_items = Some ''path''"
  by (simp add: update_builder_items_def example_host_def)

lemma offline_bootstrap:
  "executeRustBinaryAction offline_host g empty_world =
     (Inl (Error ''HTTPError'' ''Unexpected HTTP response: 404''),
      empty_world\<lparr>trace :=
        [ReadFile ''/action/dist/../../Cargo.toml'', Find ''acme/mycli'' ''1.2.3'',
         Download
           ''https://github.com/acme/mycli/releases/download/v1.2.3/mycli-v1.2.3-linux-x64.tar.gz'']\<rparr>)"
proof -
  have d: "downloadTool offline_host u = Inl (Error ''HTTPError'' ''Unexpected HTTP response: 404'')"
    for u by (simp add: offline_host_def)
  show ?thesis
    by (simp add: bootstrap_download_fails [OF offline_miss example_bin d] releaseUrl_def)
       (simp add: offline_host_def example_host_def example_toml_def empty_world_def)
qed

lemma offline_variant:
  "execute_rust_binary_action offline_host c empty_world =
     (Inl (Error ''HTTPError'' ''Unexpected HTTP response: 404''),
      empty_world\<lparr>trace :=
        [ReadFile ''/action/dist/../Cargo.toml'', Find ''acme/mycli'' ''1.2.3'',
         Download
           ''https://github.com/acme/mycli/releases/download/v1.2.3/mycli-v1.2.3-linux-x64.tar.gz'']\<rparr>)"
proof -
  have d: "downloadTool offline_host u = Inl (Error ''HTTPError'' ''Unexpected HTTP response: 404'')"
    for u by (simp add: offline_host_def)
  show ?thesis
    by (simp add: variant_download_fails [OF offline_miss d] releaseUrl_def)
       (simp add: offline_host_def example_host_def example_toml_def empty_world_def)
qed

lemma string_throwing_bootstrap:
  "executeRustBinaryAction string_throwing_host g empty_world =
     (Inl (NonError ''connection reset''),
      empty_world\<lparr>trace :=
        [ReadFile ''/action/dist/../../Cargo.toml'', Find ''acme/mycli'' ''1.2.3'',
         Download
           ''https://github.com/acme/mycli/releases/download/v1.2.3/mycli-v1.2.3-linux-x64.tar.gz'']\<rparr>)"
proof -
  have d: "downloadTool string_throwing_host u = Inl (NonError ''connection reset'')"
    for u by (simp add: string_throwing_host_def)
  show ?thesis
    by (simp add: bootstrap_download_fails [OF string_throwing_miss example_bin d] releaseUrl_def)
       (simp add: string_throwing_host_def example_host_def example_toml_def empty_world_def)
qed

lemma string_throwing_variant:
  "execute_rust_binary_action string_throwing_host c empty_world =
     (Inl (NonError ''connection reset''),
      empty_world\<lparr>trace :=
        [ReadFile ''/action/dist/../Cargo.toml'', Find ''acme/mycli'' ''1.2.3'',
         Download
           ''https://github.com/acme/mycli/releases/download/v1.2.3/mycli-v1.2.3-linux-x64.tar.gz'']\<rparr>)"
proof -
  have d: "downloadTool string_throwing_host u = Inl (NonError ''connection reset'')"
    for u by (simp add: string_throwing_host_def)
  show ?thesis
    by (simp add: variant_download_fails [OF string_throwing_miss d] releaseUrl_def)
       (simp add: string_throwing_host_def example_host_def example_toml_def empty_world_def)
qed

lemma exec_failing_hit:
  "cache_hit exec_failing_host rel cached_world example_toml ''acme/mycli''
     ''/cache/acme/mycli/1.2.3''"
proof -
  have "supported ''linux''" by (simp add: supported_def)
  from example_hit [OF this, of rel] show ?thesis
    by (simp add: cache_hit_def exec_failing_host_def manifest_of_def example_host_def)
qed

section \<open>Lemmas about the repository URL\<close>

lemma segment_char_plain:
  "is_segment_char c \<Longrightarrow> c \<noteq> CHR ''/'' \<and> c \<noteq> CHR ''?'' \<and> c \<noteq> CHR ''#''"
  by (auto simp: is_segment_char_def)

lemma segment_ok_plain:
  "segment_ok s \<Longrightarrow> x \<in> set s \<Longrightarrow> x \<noteq> CHR ''/'' \<and> x \<noteq> CHR ''?'' \<and> x \<noteq> CHR ''#''"
  by (auto simp: segment_ok_def list_all_iff dest: segment_char_plain)

lemma takeWhile_stop:
  "(\<And>x. x \<in> set xs \<Longrightarrow> P x) \<Longrightarrow> \<not> P y \<Longrightarrow> takeWhile P (xs @ y # ys) = xs"
  by (induction xs) auto

lemma pathname_wellformed:
  assumes "segment_ok hostname" and "\<And>x. x \<in> set path \<Longrightarrow> x \<noteq> CHR ''?'' \<and> x \<noteq> CHR ''#''"
  shows "urlParse_pathname (''https://'' @ hostname @ ''/'' @ path) = Some (''/'' @ path)"
proof -
  have p: "takeWhile is_scheme_char (''https://'' @ hostname @ ''/'' @ path) = ''https''"
    by (simp add: is_scheme_char_def)
  have h: "takeWhile (\<lambda>c. c \<notin> set ''/?#'') (hostname @ CHR ''/'' # path) = hostname"
    using segment_ok_plain [OF assms(1)] by (intro takeWhile_stop) auto
  have q: "takeWhile (\<lambda>c. c \<notin> set ''?#'') (CHR ''/'' # path) = CHR ''/'' # path"
    using assms(2) by (auto simp: takeWhile_eq_all_conv)
  show ?thesis
    unfolding urlParse_pathname_def Let_def p
    using h q by simp
qed

lemma ends_with_iff: "ends_with s x \<longleftrightarrow> (\<exists>p. x = p @ s)"
proof
  assume "ends_with s x"
  then have "x = take (length x - length s) x @ s"
    by (metis append_take_drop_id ends_with_def)
  then show "\<exists>p. x = p @ s" by blast
next
  assume "\<exists>p. x = p @ s"
  then obtain p where "x = p @ s" ..
  then show "ends_with s x" by (simp add: ends_with_def)
qed

lemma ends_with_after:
  assumes "c \<notin> set s"
  shows "ends_with s (a @ c # b) = ends_with s b"
proof
  assume "ends_with s (a @ c # b)"
  then obtain p where "a @ c # b = p @ s" by (auto simp: ends_with_iff)
  with assms show "ends_with s b"
    by (auto simp: append_eq_append_conv2 Cons_eq_append_conv ends_with_iff)
next
  assume "ends_with s b"
  then obtain p where "b = p @ s" by (auto simp: ends_with_iff)
  then have "a @ c # b = (a @ c # p) @ s" by simp
  then show "ends_with s (a @ c # b)" unfolding ends_with_iff by blast
qed

lemma replace_git_suffix_strip: "replace_git_suffix (p @ ''.git'') = p"
  by (simp add: replace_git_suffix_def ends_with_def)

lemma replace_git_suffix_keep:
  "\<not> ends_with ''.git'' repo \<Longrightarrow> replace_git_suffix (org @ CHR ''/'' # repo) = org @ CHR ''/'' # repo"
  by (simp add: replace_git_suffix_def ends_with_after)

section \<open>Properties\<close>

text \<open>
  C1. On a supported platform, when the lookup under the key (organization/repository,
  version) finds a cached directory, the resolution downloads nothing, extracts
  nothing and registers nothing: after reading the manifest and looking the key up,
  the next call, if the arguments can be built, executes the path built from the
  cached directory. The cache is left as it was. This holds for both launchers.
\<close>

theorem C1_cache_hit_skips_fetch:
  "(cache_hit h ''../../Cargo.toml'' w t key dir \<and> first_bin_name t = Inr nm \<longrightarrow>
      filter is_download (new_events w (snd (executeRustBinaryAction h g w))) = []
    \<and> filter is_extraction (new_events w (snd (executeRustBinaryAction h g w))) = []
    \<and> filter is_registration (new_events w (snd (executeRustBinaryAction h g w))) = []
    \<and> tool_cache (snd (executeRustBinaryAction h g w)) = tool_cache w
    \<and> new_events w (snd (executeRustBinaryAction h g w)) =
        [ReadFile (path_join h (dirname h) ''../../Cargo.toml''),
         Find key (package_version (package t))]
        @ (case g (core_accessors h) of
             Inl e \<Rightarrow> []
           | Inr args \<Rightarrow> [Exec (path_join h dir nm) args]))
   \<and> (cache_hit h ''../Cargo.toml'' w t key dir \<longrightarrow>
      filter is_download (new_events w (snd (execute_rust_binary_action h c w))) = []
    \<and> filter is_extraction (new_events w (snd (execute_rust_binary_action h c w))) = []
    \<and> filter is_registration (new_events w (snd (execute_rust_binary_action h c w))) = []
    \<and> tool_cache (snd (execute_rust_binary_action h c w)) = tool_cache w
    \<and> new_events w (snd (execute_rust_binary_action h c w)) =
        [ReadFile (path_join h (dirname h) ''../Cargo.toml''),
         Find key (package_version (package t)),
         Exec (path_join h dir (package_name (package t))) [c]])"
proof -
  { assume a: "cache_hit h ''../../Cargo.toml'' w t key dir" "first_bin_name t = Inr nm"
    have "trace (snd (executeRustBinaryAction h g w)) =
        trace w @ ([ReadFile (path_join h (dirname h) ''../../Cargo.toml''),
         Find key (package_version (package t))]
        @ (case g (core_accessors h) of
             Inl e \<Rightarrow> []
           | Inr args \<Rightarrow> [Exec (path_join h dir nm) args]))"
      by (simp add: bootstrap_hit [OF a] launch_trace)
    then have ne: "new_events w (snd (executeRustBinaryAction h g w)) =
        [ReadFile (path_join h (dirname h) ''../../Cargo.toml''),
         Find key (package_version (package t))]
        @ (case g (core_accessors h) of
             Inl e \<Rightarrow> []
           | Inr args \<Rightarrow> [Exec (path_join h dir nm) args])"
      by (rule new_events_append)
    have "tool_cache (snd (executeRustBinaryAction h g w)) = tool_cache w"
      by (simp add: bootstrap_hit [OF a] launch_cache)
    with ne have
      "filter is_download (new_events w (snd (executeRustBinaryAction h g w))) = []
    \<and> filter is_extraction (new_events w (snd (executeRustBinaryAction h g w))) = []
    \<and> filter is_registration (new_events w (snd (executeRustBinaryAction h g w))) = []
    \<and> tool_cache (snd (executeRustBinaryAction h g w)) = tool_cache w
    \<and> new_events w (snd (executeRustBinaryAction h g w)) =
        [ReadFile (path_join h (dirname h) ''../../Cargo.toml''),
         Find key (package_version (package t))]
        @ (case g (core_accessors h) of
             Inl e \<Rightarrow> []
           | Inr args \<Rightarrow> [Exec (path_join h dir nm) args])"
      by (simp split: sum.splits) }
  moreover
  { assume a: "cache_hit h ''../Cargo.toml'' w t key dir"
    have "trace (snd (execute_rust_binary_action h c w)) =
        trace w @ [ReadFile (path_join h (dirname h) ''../Cargo.toml''),
         Find key (package_version (package t)),
         Exec (path_join h dir (package_name (package t))) [c]]"
      by (simp add: variant_hit [OF a] launch_trace)
    then have ne: "new_events w (snd (execute_rust_binary_action h c w)) =
        [ReadFile (path_join h (dirname h) ''../Cargo.toml''),
         Find key (package_version (package t)),
         Exec (path_join h dir (package_name (package t))) [c]]"
      by (rule new_events_append)
    have "tool_cache (snd (execute_rust_binary_action h c w)) = tool_cache w"
      by (simp add: variant_hit [OF a] launch_cache)
    with ne have
      "filter is_download (new_events w (snd (execute_rust_binary_action h c w))) = []
    \<and> filter is_extraction (new_events w (snd (execute_rust_binary_action h c w))) = []
    \<and> filter is_registration (new_events w (snd (execute_rust_binary_action h c w))) = []
    \<and> tool_cache (snd (execute_rust_binary_action h c w)) = tool_cache w
    \<and> new_events w (snd (execute_rust_binary_action h c w)) =
        [ReadFile (path_join h (dirname h) ''../Cargo.toml''),
         Find key (package_version (package t)),
         Exec (path_join h dir (package_name (package t))) [c]]"
      by simp }
  ultimately show ?thesis by blast
qed

theorem C1_cache_hit_witness:
  "cache_hit (example_host ''linux'') ''../../Cargo.toml'' cached_world example_toml
     ''acme/mycli'' ''/cache/acme/mycli/1.2.3''
   \<and> new_events cached_world
       (snd (executeRustBinaryAction (example_host ''linux'') prepare_release_args cached_world))
     = [ReadFile ''/action/dist/../../Cargo.toml'', Find ''acme/mycli'' ''1.2.3'',
        Exec ''/cache/acme/mycli/1.2.3/mycli''
          [''prepare-release'', ''--bump'', ''patch'', ''--repository-url'', '''']]
   \<and> cache_hit (example_host ''linux'') ''../Cargo.toml'' cached_world example_toml
     ''acme/mycli'' ''/cache/acme/mycli/1.2.3''
   \<and> new_events cached_world
       (snd (execute_rust_binary_action (example_host ''linux'') ''prepare'' cached_world))
     = [ReadFile ''/action/dist/../Cargo.toml'', Find ''acme/mycli'' ''1.2.3'',
        Exec ''/cache/acme/mycli/1.2.3/mycli'' [''prepare'']]"
proof -
  have s: "supported ''linux''" by (simp add: supported_def)
  have sel: "path_join (example_host ''linux'') = (\<lambda>a b. a @ ''/'' @ b)"
    "dirname (example_host ''linux'') = ''/action/dist''"
    "package_version (package example_toml) = ''1.2.3''"
    "package_name (package example_toml) = ''mycli''"
    by (simp_all add: example_host_def example_toml_def)
  from C1_cache_hit_skips_fetch [of "example_host ''linux''" cached_world example_toml
      "''acme/mycli''" "''/cache/acme/mycli/1.2.3''" "''mycli''" prepare_release_args
      "''prepare''"]
    example_hit [OF s] example_bin
  show ?thesis
    by (simp add: prepare_release_example sel)
qed

text \<open>
  C2, as stated, fails where the download is rejected: the lookup finds nothing,
  one download is attempted, and neither an extraction nor a registration follows.
\<close>

theorem C2_counterexample:
  "cache_miss offline_host ''../../Cargo.toml'' empty_world example_toml ''acme/mycli''
   \<and> new_events empty_world
        (snd (executeRustBinaryAction offline_host prepare_release_args empty_world))
     = [ReadFile ''/action/dist/../../Cargo.toml'', Find ''acme/mycli'' ''1.2.3'',
        Download
          ''https://github.com/acme/mycli/releases/download/v1.2.3/mycli-v1.2.3-linux-x64.tar.gz'']
   \<and> length (filter is_extraction (new_events empty_world
        (snd (executeRustBinaryAction offline_host prepare_release_args empty_world)))) \<noteq> 1
   \<and> length (filter is_registration (new_events empty_world
        (snd (executeRustBinaryAction offline_host prepare_release_args empty_world)))) \<noteq> 1"
  by (simp add: offline_miss offline_bootstrap new_events_def trace_empty_world)

text \<open>
  C2, amended. On a supported platform, when the lookup under the key finds
  nothing, exactly one download is attempted, of the release URL. When the
  download, the extraction and the registration succeed, there is exactly one
  extraction and exactly one registration, under that same key, and the cache
  then holds the registered directory under the key. When that directory is not
  the empty string, any number of further invocations on the same runner download
  nothing, and every execution, of the first invocation and of the later ones, is
  of the same path: the registered directory joined with the name. This holds for
  both entry points.
\<close>

theorem C2_cache_miss_fetches_once:
  "(cache_miss h ''../../Cargo.toml'' w t key \<and> first_bin_name t = Inr nm \<longrightarrow>
      filter is_download (new_events w (invokeWith h g w))
        = [Download (releaseUrl key (package_version (package t)) nm (platform h))]
    \<and> (fetched h t nm key downloadPath extractPath dir \<longrightarrow>
         filter is_extraction (new_events w (invokeWith h g w))
           = [ExtractTar downloadPath (RUNNER_TEMP h)]
       \<and> filter is_registration (new_events w (invokeWith h g w))
           = [CacheFile (path_join h extractPath (binaryName (platform h) nm))
                (binaryName (platform h) nm) key (package_version (package t))]
       \<and> tool_cache (invokeWith h g w) (key, package_version (package t)) = Some dir
       \<and> (dir \<noteq> '''' \<longrightarrow>
            filter is_download (new_events (invokeWith h g w) (invocations h gs (invokeWith h g w))) = []
          \<and> (\<forall>p a. Exec p a \<in> set (new_events w (invocations h gs (invokeWith h g w)))
                \<longrightarrow> p = path_join h dir nm))))
   \<and> (cache_miss h ''../Cargo.toml'' w t key \<longrightarrow>
      filter is_download (new_events w (run h c w))
        = [Download (releaseUrl key (package_version (package t))
             (package_name (package t)) (platform h))]
    \<and> (fetched h t (package_name (package t)) key downloadPath extractPath dir \<longrightarrow>
         filter is_extraction (new_events w (run h c w))
           = [ExtractTar downloadPath (RUNNER_TEMP h)]
       \<and> filter is_registration (new_events w (run h c w))
           = [CacheFile
                (path_join h extractPath (binaryName (platform h) (package_name (package t))))
                (binaryName (platform h) (package_name (package t))) key
                (package_version (package t))]
       \<and> tool_cache (run h c w) (key, package_version (package t)) = Some dir
       \<and> (dir \<noteq> '''' \<longrightarrow>
            filter is_download (new_events (run h c w) (runs h cs (run h c w))) = []
          \<and> (\<forall>p a. Exec p a \<in> set (new_events w (runs h cs (run h c w)))
                \<longrightarrow> p = path_join h dir (package_name (package t))))))"
proof -
  { assume a: "cache_miss h ''../../Cargo.toml'' w t key" "first_bin_name t = Inr nm"
    from bootstrap_miss_download [OF a, of g] obtain evs where
      "trace (snd (executeRustBinaryAction h g w)) = trace w @ evs"
      "filter is_download evs
         = [Download (releaseUrl key (package_version (package t)) nm (platform h))]"
      by blast
    then have "trace (invokeWith h g w) = trace w @ (evs
         @ (case fst (executeRustBinaryAction h g w) of
              Inl (Error n msg) \<Rightarrow> [SetFailed msg] | _ \<Rightarrow> []))"
      and "filter is_download (evs
         @ (case fst (executeRustBinaryAction h g w) of
              Inl (Error n msg) \<Rightarrow> [SetFailed msg] | _ \<Rightarrow> []))
         = [Download (releaseUrl key (package_version (package t)) nm (platform h))]"
      by (simp_all add: invokeWith_trace split: sum.splits thrown.splits)
    then have one: "filter is_download (new_events w (invokeWith h g w))
        = [Download (releaseUrl key (package_version (package t)) nm (platform h))]"
      by (simp add: new_events_append)
    { assume f: "fetched h t nm key downloadPath extractPath dir"
      note m = bootstrap_miss [OF a f, of g]
      have tr: "trace (invokeWith h g w) = trace w @
          ([ReadFile (path_join h (dirname h) ''../../Cargo.toml''),
            Find key (package_version (package t)),
            Download (releaseUrl key (package_version (package t)) nm (platform h)),
            ExtractTar downloadPath (RUNNER_TEMP h),
            CacheFile (path_join h extractPath (binaryName (platform h) nm))
              (binaryName (platform h) nm) key (package_version (package t))]
           @ (case g (core_accessors h) of Inl e \<Rightarrow> []
              | Inr args \<Rightarrow> [Exec (path_join h dir nm) args])
           @ (case fst (executeRustBinaryAction h g w) of
                Inl (Error n msg) \<Rightarrow> [SetFailed msg] | _ \<Rightarrow> []))"
        by (simp add: invokeWith_trace) (simp add: m launch_trace)
      have ne: "new_events w (invokeWith h g w) =
          [ReadFile (path_join h (dirname h) ''../../Cargo.toml''),
            Find key (package_version (package t)),
            Download (releaseUrl key (package_version (package t)) nm (platform h)),
            ExtractTar downloadPath (RUNNER_TEMP h),
            CacheFile (path_join h extractPath (binaryName (platform h) nm))
              (binaryName (platform h) nm) key (package_version (package t))]
           @ (case g (core_accessors h) of Inl e \<Rightarrow> []
              | Inr args \<Rightarrow> [Exec (path_join h dir nm) args])
           @ (case fst (executeRustBinaryAction h g w) of
                Inl (Error n msg) \<Rightarrow> [SetFailed msg] | _ \<Rightarrow> [])"
        using tr by (rule new_events_append)
      have ex: "filter is_extraction (new_events w (invokeWith h g w))
           = [ExtractTar downloadPath (RUNNER_TEMP h)]"
        and rg: "filter is_registration (new_events w (invokeWith h g w))
           = [CacheFile (path_join h extractPath (binaryName (platform h) nm))
                (binaryName (platform h) nm) key (package_version (package t))]"
        and sp: "\<forall>p a. Exec p a \<in> set (new_events w (invokeWith h g w)) \<longrightarrow> p = path_join h dir nm"
        unfolding ne by (simp_all split: sum.splits thrown.splits)
      have tc: "tool_cache (invokeWith h g w) (key, package_version (package t)) = Some dir"
        by (simp add: invokeWith_cache m launch_cache)
      { assume d: "dir \<noteq> ''''"
        from a(1) tc d have hit: "cache_hit h ''../../Cargo.toml'' (invokeWith h g w) t key dir"
          by (simp add: cache_hit_def cache_miss_def tool_find_def)
        from bootstrap_hit_invocations [OF a(2) hit, of gs] obtain evs2 where
          e2: "trace (invocations h gs (invokeWith h g w)) = trace (invokeWith h g w) @ evs2"
            "filter is_download evs2 = []"
            "\<forall>p a. Exec p a \<in> set evs2 \<longrightarrow> p = path_join h dir nm"
          by blast
        from e2(1) have n2: "new_events (invokeWith h g w) (invocations h gs (invokeWith h g w)) = evs2"
          by (rule new_events_append)
        from e2(1) tr have "trace (invocations h gs (invokeWith h g w))
            = trace w @ (new_events w (invokeWith h g w) @ evs2)"
          unfolding ne by simp
        then have n3: "new_events w (invocations h gs (invokeWith h g w))
            = new_events w (invokeWith h g w) @ evs2"
          by (rule new_events_append)
        have "filter is_download (new_events (invokeWith h g w) (invocations h gs (invokeWith h g w))) = []
          \<and> (\<forall>p a. Exec p a \<in> set (new_events w (invocations h gs (invokeWith h g w)))
                \<longrightarrow> p = path_join h dir nm)"
          unfolding n2 n3 using e2(2,3) sp by auto }
      with ex rg tc have "filter is_extraction (new_events w (invokeWith h g w))
           = [ExtractTar downloadPath (RUNNER_TEMP h)]
       \<and> filter is_registration (new_events w (invokeWith h g w))
           = [CacheFile (path_join h extractPath (binaryName (platform h) nm))
                (binaryName (platform h) nm) key (package_version (package t))]
       \<and> tool_cache (invokeWith h g w) (key, package_version (package t)) = Some dir
       \<and> (dir \<noteq> '''' \<longrightarrow>
            filter is_download (new_events (invokeWith h g w) (invocations h gs (invokeWith h g w))) = []
          \<and> (\<forall>p a. Exec p a \<in> set (new_events w (invocations h gs (invokeWith h g w)))
                \<longrightarrow> p = path_join h dir nm))"
        by blast }
    with one have "filter is_download (new_events w (invokeWith h g w))
        = [Download (releaseUrl key (package_version (package t)) nm (platform h))]
    \<and> (fetched h t nm key downloadPath extractPath dir \<longrightarrow>
         filter is_extraction (new_events w (invokeWith h g w))
           = [ExtractTar downloadPath (RUNNER_TEMP h)]
       \<and> filter is_registration (new_events w (invokeWith h g w))
           = [CacheFile (path_join h extractPath (binaryName (platform h) nm))
                (binaryName (platform h) nm) key (package_version (package t))]
       \<and> tool_cache (invokeWith h g w) (key, package_version (package t)) = Some dir
       \<and> (dir \<noteq> '''' \<longrightarrow>
            filter is_download (new_events (invokeWith h g w) (invocations h gs (invokeWith h g w))) = []
          \<and> (\<forall>p a. Exec p a \<in> set (new_events w (invocations h gs (invokeWith h g w)))
                \<longrightarrow> p = path_join h dir nm)))"
      by blast }
  note bootstrap = this
  { assume a: "cache_miss h ''../Cargo.toml'' w t key"
    from variant_miss_download [OF a, of c] obtain evs where
      "trace (snd (execute_rust_binary_action h c w)) = trace w @ evs"
      "filter is_download evs
         = [Download (releaseUrl key (package_version (package t))
              (package_name (package t)) (platform h))]"
      by blast
    then have "trace (run h c w) = trace w @ (evs
         @ (case fst (execute_rust_binary_action h c w) of
              Inl (Error n msg) \<Rightarrow> [SetFailed msg] | _ \<Rightarrow> []))"
      and "filter is_download (evs
         @ (case fst (execute_rust_binary_action h c w) of
              Inl (Error n msg) \<Rightarrow> [SetFailed msg] | _ \<Rightarrow> []))
         = [Download (releaseUrl key (package_version (package t))
              (package_name (package t)) (platform h))]"
      by (simp_all add: run_trace split: sum.splits thrown.splits)
    then have one: "filter is_download (new_events w (run h c w))
        = [Download (releaseUrl key (package_version (package t))
             (package_name (package t)) (platform h))]"
      by (simp add: new_events_append)
    { assume f: "fetched h t (package_name (package t)) key downloadPath extractPath dir"
      note m = variant_miss [OF a f, of c]
      have tr: "trace (run h c w) = trace w @
          ([ReadFile (path_join h (dirname h) ''../Cargo.toml''),
            Find key (package_version (package t)),
            Download (releaseUrl key (package_version (package t))
              (package_name (package t)) (platform h)),
            ExtractTar downloadPath (RUNNER_TEMP h),
            CacheFile
              (path_join h extractPath (binaryName (platform h) (package_name (package t))))
              (binaryName (platform h) (package_name (package t))) key
              (package_version (package t)),
            Exec (path_join h dir (package_name (package t))) [c]]
           @ (case fst (execute_rust_binary_action h c w) of
                Inl (Error n msg) \<Rightarrow> [SetFailed msg] | _ \<Rightarrow> []))"
        by (simp add: run_trace) (simp add: m launch_trace)
      have ne: "new_events w (run h c w) =
          [ReadFile (path_join h (dirname h) ''../Cargo.toml''),
            Find key (package_version (package t)),
            Download (releaseUrl key (package_version (package t))
              (package_name (package t)) (platform h)),
            ExtractTar downloadPath (RUNNER_TEMP h),
            CacheFile
              (path_join h extractPath (binaryName (platform h) (package_name (package t))))
              (binaryName (platform h) (package_name (package t))) key
              (package_version (package t)),
            Exec (path_join h dir (package_name (package t))) [c]]
           @ (case fst (execute_rust_binary_action h c w) of
                Inl (Error n msg) \<Rightarrow> [SetFailed msg] | _ \<Rightarrow> [])"
        using tr by (rule new_events_append)
      have ex: "filter is_extraction (new_events w (run h c w))
           = [ExtractTar downloadPath (RUNNER_TEMP h)]"
        and rg: "filter is_registration (new_events w (run h c w))
           = [CacheFile
                (path_join h extractPath (binaryName (platform h) (package_name (package t))))
                (binaryName (platform h) (package_name (package t))) key
                (package_version (package t))]"
        and sp: "\<forall>p a. Exec p a \<in> set (new_events w (run h c w))
                   \<longrightarrow> p = path_join h dir (package_name (package t))"
        unfolding ne by (simp_all split: sum.splits thrown.splits)
      have tc: "tool_cache (run h c w) (key, package_version (package t)) = Some dir"
        by (simp add: run_cache m launch_cache)
      { assume d: "dir \<noteq> ''''"
        from a tc d have hit: "cache_hit h ''../Cargo.toml'' (run h c w) t key dir"
          by (simp add: cache_hit_def cache_miss_def tool_find_def)
        from variant_hit_runs [OF hit, of cs] obtain evs2 where
          e2: "trace (runs h cs (run h c w)) = trace (run h c w) @ evs2"
            "filter is_download evs2 = []"
            "\<forall>p a. Exec p a \<in> set evs2 \<longrightarrow> p = path_join h dir (package_name (package t))"
          by blast
        from e2(1) have n2: "new_events (run h c w) (runs h cs (run h c w)) = evs2"
          by (rule new_events_append)
        from e2(1) tr have "trace (runs h cs (run h c w))
            = trace w @ (new_events w (run h c w) @ evs2)"
          unfolding ne by simp
        then have n3: "new_events w (runs h cs (run h c w)) = new_events w (run h c w) @ evs2"
          by (rule new_events_append)
        have "filter is_download (new_events (run h c w) (runs h cs (run h c w))) = []
          \<and> (\<forall>p a. Exec p a \<in> set (new_events w (runs h cs (run h c w)))
                \<longrightarrow> p = path_join h dir (package_name (package t)))"
          unfolding n2 n3 using e2(2,3) sp by auto }
      with ex rg tc have "filter is_extraction (new_events w (run h c w))
           = [ExtractTar downloadPath (RUNNER_TEMP h)]
       \<and> filter is_registration (new_events w (run h c w))
           = [CacheFile
                (path_join h extractPath (binaryName (platform h) (package_name (package t))))
                (binaryName (platform h) (package_name (package t))) key
                (package_version (package t))]
       \<and> tool_cache (run h c w) (key, package_version (package t)) = Some dir
       \<and> (dir \<noteq> '''' \<longrightarrow>
            filter is_download (new_events (run h c w) (runs h cs (run h c w))) = []
          \<and> (\<forall>p a. Exec p a \<in> set (new_events w (runs h cs (run h c w)))
                \<longrightarrow> p = path_join h dir (package_name (package t))))"
        by blast }
    with one have "filter is_download (new_events w (run h c w))
        = [Download (releaseUrl key (package_version (package t))
             (package_name (package t)) (platform h))]
    \<and> (fetched h t (package_name (package t)) key downloadPath extractPath dir \<longrightarrow>
         filter is_extraction (new_events w (run h c w))
           = [ExtractTar downloadPath (RUNNER_TEMP h)]
       \<and> filter is_registration (new_events w (run h c w))
           = [CacheFile
                (path_join h extractPath (binaryName (platform h) (package_name (package t))))
                (binaryName (platform h) (package_name (package t))) key
                (package_version (package t))]
       \<and> tool_cache (run h c w) (key, package_version (package t)) = Some dir
       \<and> (dir \<noteq> '''' \<longrightarrow>
            filter is_download (new_events (run h c w) (runs h cs (run h c w))) = []
          \<and> (\<forall>p a. Exec p a \<in> set (new_events w (runs h cs (run h c w)))
                \<longrightarrow> p = path_join h dir (package_name (package t)))))"
      by blast }
  with bootstrap show ?thesis by blast
qed

theorem C2_cache_miss_fetches_once_witness:
  "cache_miss (example_host ''linux'') ''../../Cargo.toml'' empty_world example_toml ''acme/mycli''
   \<and> fetched (example_host ''linux'') example_toml ''mycli'' ''acme/mycli'' ''/tmp/archive''
        ''/tmp/extracted'' ''/cache/acme/mycli/1.2.3''
   \<and> filter is_download (new_events empty_world
        (invokeWith (example_host ''linux'') prepare_release_args empty_world))
      = [Download (releaseUrl ''acme/mycli'' ''1.2.3'' ''mycli'' ''linux'')]
   \<and> filter is_download
        (new_events (invokeWith (example_host ''linux'') prepare_release_args empty_world)
           (invocations (example_host ''linux'') [update_builder_args, prepare_release_args]
              (invokeWith (example_host ''linux'') prepare_release_args empty_world)))
      = []
   \<and> cache_miss (example_host ''linux'') ''../Cargo.toml'' empty_world example_toml ''acme/mycli''
   \<and> filter is_download
        (new_events (run (example_host ''linux'') ''prepare'' empty_world)
           (runs (example_host ''linux'') [''prepare'', ''prepare'']
              (run (example_host ''linux'') ''prepare'' empty_world)))
      = []"
proof -
  have s: "supported ''linux''" by (simp add: supported_def)
  note m1 = example_miss [OF s, of "''../../Cargo.toml''"]
  note m2 = example_miss [OF s, of "''../Cargo.toml''"]
  note f = example_fetched [of "''linux''"]
  have sel: "platform (example_host ''linux'') = ''linux''"
    "package_version (package example_toml) = ''1.2.3''"
    "package_name (package example_toml) = ''mycli''"
    by (simp_all add: example_host_def example_toml_def)
  note T = C2_cache_miss_fetches_once [of "example_host ''linux''" empty_world example_toml
      "''acme/mycli''" "''mycli''" prepare_release_args "''/tmp/archive''" "''/tmp/extracted''"
      "''/cache/acme/mycli/1.2.3''" "[update_builder_args, prepare_release_args]"
      "''prepare''" "[''prepare'', ''prepare'']"]
  from T m1 m2 f example_bin show ?thesis
    by (simp add: sel)
qed

text \<open>
  C3. The release URL is a function of the organization/repository identifier, the
  version, the name of the binary and the platform, and equals
  \<open>https://github.com/{org}/{repo}/releases/download/v{version}/{name}-v{version}-{platform}-x64.tar.gz\<close>.
  It is the URL of the one download that follows a lookup that finds nothing, in
  both launchers.
\<close>

theorem C3_release_url:
  "releaseUrl (org @ ''/'' @ repo) ver nm pf =
     ''https://github.com/'' @ org @ ''/'' @ repo @ ''/releases/download/v'' @ ver @ ''/''
       @ nm @ ''-v'' @ ver @ ''-'' @ pf @ ''-x64.tar.gz''
   \<and> (cache_miss h ''../../Cargo.toml'' w t (org @ ''/'' @ repo) \<and> first_bin_name t = Inr nm \<longrightarrow>
        filter is_download (new_events w (snd (executeRustBinaryAction h g w))) =
          [Download (''https://github.com/'' @ org @ ''/'' @ repo @ ''/releases/download/v''
             @ package_version (package t) @ ''/'' @ nm @ ''-v'' @ package_version (package t)
             @ ''-'' @ platform h @ ''-x64.tar.gz'')])
   \<and> (cache_miss h ''../Cargo.toml'' w t (org @ ''/'' @ repo) \<longrightarrow>
        filter is_download (new_events w (snd (execute_rust_binary_action h c w))) =
          [Download (''https://github.com/'' @ org @ ''/'' @ repo @ ''/releases/download/v''
             @ package_version (package t) @ ''/'' @ package_name (package t) @ ''-v''
             @ package_version (package t) @ ''-'' @ platform h @ ''-x64.tar.gz'')])"
proof -
  have url: "releaseUrl (org @ ''/'' @ repo) v n p =
     ''https://github.com/'' @ org @ ''/'' @ repo @ ''/releases/download/v'' @ v @ ''/''
       @ n @ ''-v'' @ v @ ''-'' @ p @ ''-x64.tar.gz''" for v n p
    by (simp add: releaseUrl_def)
  { assume a: "cache_miss h ''../../Cargo.toml'' w t (org @ ''/'' @ repo)"
      "first_bin_name t = Inr nm"
    from bootstrap_miss_download [OF a, of g] obtain evs where
      "trace (snd (executeRustBinaryAction h g w)) = trace w @ evs"
      "filter is_download evs =
         [Download (releaseUrl (org @ ''/'' @ repo) (package_version (package t)) nm (platform h))]"
      by blast
    then have "filter is_download (new_events w (snd (executeRustBinaryAction h g w))) =
          [Download (''https://github.com/'' @ org @ ''/'' @ repo @ ''/releases/download/v''
             @ package_version (package t) @ ''/'' @ nm @ ''-v'' @ package_version (package t)
             @ ''-'' @ platform h @ ''-x64.tar.gz'')]"
      by (simp add: new_events_append releaseUrl_def) }
  moreover
  { assume a: "cache_miss h ''../Cargo.toml'' w t (org @ ''/'' @ repo)"
    from variant_miss_download [OF a, of c] obtain evs where
      "trace (snd (execute_rust_binary_action h c w)) = trace w @ evs"
      "filter is_download evs =
         [Download (releaseUrl (org @ ''/'' @ repo) (package_version (package t))
            (package_name (package t)) (platform h))]"
      by blast
    then have "filter is_download (new_events w (snd (execute_rust_binary_action h c w))) =
          [Download (''https://github.com/'' @ org @ ''/'' @ repo @ ''/releases/download/v''
             @ package_version (package t) @ ''/'' @ package_name (package t) @ ''-v''
             @ package_version (package t) @ ''-'' @ platform h @ ''-x64.tar.gz'')]"
      by (simp add: new_events_append releaseUrl_def) }
  ultimately show ?thesis using url by blast
qed

theorem C3_release_url_witness:
  "cache_miss (example_host ''linux'') ''../../Cargo.toml'' empty_world example_toml
     (''acme'' @ ''/'' @ ''mycli'')
   \<and> filter is_download (new_events empty_world
        (snd (executeRustBinaryAction (example_host ''linux'') prepare_release_args empty_world)))
     = [Download
          ''https://github.com/acme/mycli/releases/download/v1.2.3/mycli-v1.2.3-linux-x64.tar.gz'']
   \<and> cache_miss (example_host ''win32'') ''../Cargo.toml'' empty_world example_toml
     (''acme'' @ ''/'' @ ''mycli'')
   \<and> filter is_download (new_events empty_world
        (snd (execute_rust_binary_action (example_host ''win32'') ''prepare'' empty_world)))
     = [Download
          ''https://github.com/acme/mycli/releases/download/v1.2.3/mycli-v1.2.3-win32-x64.tar.gz'']"
proof -
  have s: "supported ''linux''" "supported ''win32''" by (simp_all add: supported_def)
  have sel: "platform (example_host ''linux'') = ''linux''"
    "platform (example_host ''win32'') = ''win32''"
    "package_version (package example_toml) = ''1.2.3''"
    "package_name (package example_toml) = ''mycli''"
    by (simp_all add: example_host_def example_toml_def)
  from C3_release_url [of "''acme''" "''mycli''" "''1.2.3''" "''mycli''" "''linux''"
      "example_host ''linux''" empty_world example_toml prepare_release_args "''prepare''"]
    C3_release_url [of "''acme''" "''mycli''" "''1.2.3''" "''mycli''" "''win32''"
      "example_host ''win32''" empty_world example_toml prepare_release_args "''prepare''"]
    example_miss [OF s(1), of "''../../Cargo.toml''"] example_miss [OF s(2), of "''../Cargo.toml''"]
    example_bin
  show ?thesis
    by (simp add: sel)
qed

text \<open>
  C4. In both launchers every execution is of the cached directory joined with the
  bare name of the binary, where the cached directory is the one the lookup found
  or, after a lookup that found nothing, the one the registration returned. An
  invocation with the cached directory at hand and the arguments built makes
  exactly one execution, of that path. On \<open>win32\<close> the file registered after a
  lookup that found nothing is named with \<open>.exe\<close> appended, and the path
  executed still ends with the bare name.
\<close>

theorem C4_exec_path_uses_bare_name:
  "(first_bin_name t = Inr nm \<and> g (core_accessors h) = Inr args
      \<and> (cache_hit h ''../../Cargo.toml'' w t key dir
          \<or> cache_miss h ''../../Cargo.toml'' w t key
            \<and> fetched h t nm key downloadPath extractPath dir) \<longrightarrow>
      filter is_spawn (new_events w (invokeWith h g w)) = [Exec (path_join h dir nm) args])
   \<and> (first_bin_name t = Inr nm \<and> platform h = ''win32''
      \<and> cache_miss h ''../../Cargo.toml'' w t key
      \<and> fetched h t nm key downloadPath extractPath dir \<longrightarrow>
      filter is_registration (new_events w (invokeWith h g w))
        = [CacheFile (path_join h extractPath (nm @ ''.exe'')) (nm @ ''.exe'') key
             (package_version (package t))])
   \<and> (cache_hit h ''../Cargo.toml'' w t key dir
        \<or> cache_miss h ''../Cargo.toml'' w t key
          \<and> fetched h t (package_name (package t)) key downloadPath extractPath dir \<longrightarrow>
      filter is_spawn (new_events w (run h c w))
        = [Exec (path_join h dir (package_name (package t))) [c]])
   \<and> (platform h = ''win32''
      \<and> cache_miss h ''../Cargo.toml'' w t key
      \<and> fetched h t (package_name (package t)) key downloadPath extractPath dir \<longrightarrow>
      filter is_registration (new_events w (run h c w))
        = [CacheFile (path_join h extractPath (package_name (package t) @ ''.exe''))
             (package_name (package t) @ ''.exe'') key (package_version (package t))])
   \<and> (Exec p a \<in> set (new_events w (invokeWith h g w)) \<longrightarrow>
        (\<exists>t' nm' key' dir' dl ex.
            first_bin_name t' = Inr nm' \<and> g (core_accessors h) = Inr a
          \<and> p = path_join h dir' nm'
          \<and> (cache_hit h ''../../Cargo.toml'' w t' key' dir'
              \<or> cache_miss h ''../../Cargo.toml'' w t' key' \<and> fetched h t' nm' key' dl ex dir')))
   \<and> (Exec p a \<in> set (new_events w (run h c w)) \<longrightarrow>
        (\<exists>t' key' dir' dl ex.
            a = [c] \<and> p = path_join h dir' (package_name (package t'))
          \<and> (cache_hit h ''../Cargo.toml'' w t' key' dir'
              \<or> cache_miss h ''../Cargo.toml'' w t' key'
                \<and> fetched h t' (package_name (package t')) key' dl ex dir')))"
proof -
  have tail: "filter is_spawn (case r of Inl (Error n msg) \<Rightarrow> [SetFailed msg] | _ \<Rightarrow> []) = []"
    "filter is_registration (case r of Inl (Error n msg) \<Rightarrow> [SetFailed msg] | _ \<Rightarrow> []) = []"
    for r :: "thrown + unit"
    by (simp_all split: sum.splits thrown.splits)
  { assume a: "first_bin_name t = Inr nm" "g (core_accessors h) = Inr args"
      and b: "cache_hit h ''../../Cargo.toml'' w t key dir"
    have "trace (invokeWith h g w) = trace w @
        ([ReadFile (path_join h (dirname h) ''../../Cargo.toml''),
          Find key (package_version (package t)), Exec (path_join h dir nm) args]
         @ (case fst (executeRustBinaryAction h g w) of
              Inl (Error n msg) \<Rightarrow> [SetFailed msg] | _ \<Rightarrow> []))"
      by (simp add: invokeWith_trace) (simp add: bootstrap_hit [OF b a(1)] launch_trace a(2))
    then have "new_events w (invokeWith h g w) =
        [ReadFile (path_join h (dirname h) ''../../Cargo.toml''),
          Find key (package_version (package t)), Exec (path_join h dir nm) args]
         @ (case fst (executeRustBinaryAction h g w) of
              Inl (Error n msg) \<Rightarrow> [SetFailed msg] | _ \<Rightarrow> [])"
      by (rule new_events_append)
    then have "filter is_spawn (new_events w (invokeWith h g w)) = [Exec (path_join h dir nm) args]"
      by (simp add: tail) }
  note hit1 = this
  { assume a: "first_bin_name t = Inr nm"
      and b: "cache_miss h ''../../Cargo.toml'' w t key"
        "fetched h t nm key downloadPath extractPath dir"
    have "trace (invokeWith h g w) = trace w @
        ([ReadFile (path_join h (dirname h) ''../../Cargo.toml''),
          Find key (package_version (package t)),
          Download (releaseUrl key (package_version (package t)) nm (platform h)),
          ExtractTar downloadPath (RUNNER_TEMP h),
          CacheFile (path_join h extractPath (binaryName (platform h) nm))
            (binaryName (platform h) nm) key (package_version (package t))]
         @ (case g (core_accessors h) of Inl e \<Rightarrow> []
            | Inr args \<Rightarrow> [Exec (path_join h dir nm) args])
         @ (case fst (executeRustBinaryAction h g w) of
              Inl (Error n msg) \<Rightarrow> [SetFailed msg] | _ \<Rightarrow> []))"
      by (simp add: invokeWith_trace) (simp add: bootstrap_miss [OF b(1) a b(2)] launch_trace)
    then have ne: "new_events w (invokeWith h g w) =
        [ReadFile (path_join h (dirname h) ''../../Cargo.toml''),
          Find key (package_version (package t)),
          Download (releaseUrl key (package_version (package t)) nm (platform h)),
          ExtractTar downloadPath (RUNNER_TEMP h),
          CacheFile (path_join h extractPath (binaryName (platform h) nm))
            (binaryName (platform h) nm) key (package_version (package t))]
         @ (case g (core_accessors h) of Inl e \<Rightarrow> []
            | Inr args \<Rightarrow> [Exec (path_join h dir nm) args])
         @ (case fst (executeRustBinaryAction h g w) of
              Inl (Error n msg) \<Rightarrow> [SetFailed msg] | _ \<Rightarrow> [])"
      by (rule new_events_append)
    have "(g (core_accessors h) = Inr args \<longrightarrow>
           filter is_spawn (new_events w (invokeWith h g w)) = [Exec (path_join h dir nm) args])
      \<and> (platform h = ''win32'' \<longrightarrow>
           filter is_registration (new_events w (invokeWith h g w))
             = [CacheFile (path_join h extractPath (nm @ ''.exe'')) (nm @ ''.exe'') key
                  (package_version (package t))])"
      unfolding ne by (simp add: tail binaryName_def split: sum.splits) }
  note miss1 = this
  { assume b: "cache_hit h ''../Cargo.toml'' w t key dir"
    have "trace (run h c w) = trace w @
        ([ReadFile (path_join h (dirname h) ''../Cargo.toml''),
          Find key (package_version (package t)),
          Exec (path_join h dir (package_name (package t))) [c]]
         @ (case fst (execute_rust_binary_action h c w) of
              Inl (Error n msg) \<Rightarrow> [SetFailed msg] | _ \<Rightarrow> []))"
      by (simp add: run_trace) (simp add: variant_hit [OF b] launch_trace)
    then have "new_events w (run h c w) =
        [ReadFile (path_join h (dirname h) ''../Cargo.toml''),
          Find key (package_version (package t)),
          Exec (path_join h dir (package_name (package t))) [c]]
         @ (case fst (execute_rust_binary_action h c w) of
              Inl (Error n msg) \<Rightarrow> [SetFailed msg] | _ \<Rightarrow> [])"
      by (rule new_events_append)
    then have "filter is_spawn (new_events w (run h c w))
        = [Exec (path_join h dir (package_name (package t))) [c]]"
      by (simp add: tail) }
  note hit2 = this
  { assume b: "cache_miss h ''../Cargo.toml'' w t key"
        "fetched h t (package_name (package t)) key downloadPath extractPath dir"
    have "trace (run h c w) = trace w @
        ([ReadFile (path_join h (dirname h) ''../Cargo.toml''),
          Find key (package_version (package t)),
          Download (releaseUrl key (package_version (package t))
            (package_name (package t)) (platform h)),
          ExtractTar downloadPath (RUNNER_TEMP h),
          CacheFile
            (path_join h extractPath (binaryName (platform h) (package_name (package t))))
            (binaryName (platform h) (package_name (package t))) key
            (package_version (package t)),
          Exec (path_join h dir (package_name (package t))) [c]]
         @ (case fst (execute_rust_binary_action h c w) of
              Inl (Error n msg) \<Rightarrow> [SetFailed msg] | _ \<Rightarrow> []))"
      by (simp add: run_trace) (simp add: variant_miss [OF b] launch_trace)
    then have ne: "new_events w (run h c w) =
        [ReadFile (path_join h (dirname h) ''../Cargo.toml''),
          Find key (package_version (package t)),
          Download (releaseUrl key (package_version (package t))
            (package_name (package t)) (platform h)),
          ExtractTar downloadPath (RUNNER_TEMP h),
          CacheFile
            (path_join h extractPath (binaryName (platform h) (package_name (package t))))
            (binaryName (platform h) (package_name (package t))) key
            (package_version (package t)),
          Exec (path_join h dir (package_name (package t))) [c]]
         @ (case fst (execute_rust_binary_action h c w) of
              Inl (Error n msg) \<Rightarrow> [SetFailed msg] | _ \<Rightarrow> [])"
      by (rule new_events_append)
    have "filter is_spawn (new_events w (run h c w))
             = [Exec (path_join h dir (package_name (package t))) [c]]
      \<and> (platform h = ''win32'' \<longrightarrow>
           filter is_registration (new_events w (run h c w))
             = [CacheFile (path_join h extractPath (package_name (package t) @ ''.exe''))
                  (package_name (package t) @ ''.exe'') key (package_version (package t))])"
      unfolding ne by (simp add: tail binaryName_def) }
  note miss2 = this
  { assume x: "Exec p a \<in> set (new_events w (invokeWith h g w))"
    from bootstrap_events [of h g w] obtain evs where
      e: "trace (snd (executeRustBinaryAction h g w)) = trace w @ evs" by blast
    then have "trace (invokeWith h g w) = trace w @ (evs
         @ (case fst (executeRustBinaryAction h g w) of
              Inl (Error n msg) \<Rightarrow> [SetFailed msg] | _ \<Rightarrow> []))"
      by (simp add: invokeWith_trace)
    then have "new_events w (invokeWith h g w) = evs
         @ (case fst (executeRustBinaryAction h g w) of
              Inl (Error n msg) \<Rightarrow> [SetFailed msg] | _ \<Rightarrow> [])"
      by (rule new_events_append)
    with x have "Exec p a \<in> set evs" by (auto split: sum.splits thrown.splits)
    with e have "Exec p a \<in> set (new_events w (snd (executeRustBinaryAction h g w)))"
      by (simp add: new_events_append)
    then have "\<exists>t' nm' key' dir' dl ex.
            first_bin_name t' = Inr nm' \<and> g (core_accessors h) = Inr a
          \<and> p = path_join h dir' nm'
          \<and> (cache_hit h ''../../Cargo.toml'' w t' key' dir'
              \<or> cache_miss h ''../../Cargo.toml'' w t' key' \<and> fetched h t' nm' key' dl ex dir')"
      by (rule bootstrap_exec_origin) }
  note all1 = this
  { assume x: "Exec p a \<in> set (new_events w (run h c w))"
    from variant_events [of h c w] obtain evs where
      e: "trace (snd (execute_rust_binary_action h c w)) = trace w @ evs" by blast
    then have "trace (run h c w) = trace w @ (evs
         @ (case fst (execute_rust_binary_action h c w) of
              Inl (Error n msg) \<Rightarrow> [SetFailed msg] | _ \<Rightarrow> []))"
      by (simp add: run_trace)
    then have "new_events w (run h c w) = evs
         @ (case fst (execute_rust_binary_action h c w) of
              Inl (Error n msg) \<Rightarrow> [SetFailed msg] | _ \<Rightarrow> [])"
      by (rule new_events_append)
    with x have "Exec p a \<in> set evs" by (auto split: sum.splits thrown.splits)
    with e have "Exec p a \<in> set (new_events w (snd (execute_rust_binary_action h c w)))"
      by (simp add: new_events_append)
    then have "\<exists>t' key' dir' dl ex.
            a = [c] \<and> p = path_join h dir' (package_name (package t'))
          \<and> (cache_hit h ''../Cargo.toml'' w t' key' dir'
              \<or> cache_miss h ''../Cargo.toml'' w t' key'
                \<and> fetched h t' (package_name (package t')) key' dl ex dir')"
      by (rule variant_exec_origin) }
  note all2 = this
  from hit1 miss1 hit2 miss2 all1 all2 show ?thesis by blast
qed

theorem C4_exec_path_witness:
  "cache_miss (example_host ''win32'') ''../../Cargo.toml'' empty_world example_toml ''acme/mycli''
   \<and> fetched (example_host ''win32'') example_toml ''mycli'' ''acme/mycli'' ''/tmp/archive''
        ''/tmp/extracted'' ''/cache/acme/mycli/1.2.3''
   \<and> filter is_spawn (new_events empty_world
        (invokeWith (example_host ''win32'') prepare_release_args empty_world))
      = [Exec ''/cache/acme/mycli/1.2.3/mycli''
           [''prepare-release'', ''--bump'', ''patch'', ''--repository-url'', '''']]
   \<and> filter is_registration (new_events empty_world
        (invokeWith (example_host ''win32'') prepare_release_args empty_world))
      = [CacheFile ''/tmp/extracted/mycli.exe'' ''mycli.exe'' ''acme/mycli'' ''1.2.3'']
   \<and> cache_hit (example_host ''win32'') ''../Cargo.toml'' cached_world example_toml
        ''acme/mycli'' ''/cache/acme/mycli/1.2.3''
   \<and> filter is_spawn (new_events cached_world
        (run (example_host ''win32'') ''prepare'' cached_world))
      = [Exec ''/cache/acme/mycli/1.2.3/mycli'' [''prepare'']]
   \<and> filter is_registration (new_events empty_world
        (run (example_host ''win32'') ''prepare'' empty_world))
      = [CacheFile ''/tmp/extracted/mycli.exe'' ''mycli.exe'' ''acme/mycli'' ''1.2.3'']"
proof -
  have s: "supported ''win32''" by (simp add: supported_def)
  note m1 = example_miss [OF s, of "''../../Cargo.toml''"]
  note m2 = example_miss [OF s, of "''../Cargo.toml''"]
  note h2 = example_hit [OF s, of "''../Cargo.toml''"]
  note f = example_fetched [of "''win32''"]
  have sel: "platform (example_host ''win32'') = ''win32''"
    "path_join (example_host ''win32'') = (\<lambda>a b. a @ ''/'' @ b)"
    "package_version (package example_toml) = ''1.2.3''"
    "package_name (package example_toml) = ''mycli''"
    by (simp_all add: example_host_def example_toml_def)
  note T1 = C4_exec_path_uses_bare_name [of example_toml "''mycli''" prepare_release_args
      "example_host ''win32''" "[''prepare-release'', ''--bump'', ''patch'', ''--repository-url'', '''']"
      empty_world "''acme/mycli''" "''/cache/acme/mycli/1.2.3''" "''/tmp/archive''"
      "''/tmp/extracted''" "''prepare''"]
  note T2 = C4_exec_path_uses_bare_name [of example_toml "''mycli''" prepare_release_args
      "example_host ''win32''" "[''prepare-release'', ''--bump'', ''patch'', ''--repository-url'', '''']"
      cached_world "''acme/mycli''" "''/cache/acme/mycli/1.2.3''" "''/tmp/archive''"
      "''/tmp/extracted''" "''prepare''"]
  from T1 m1 m2 f example_bin prepare_release_example [of "''win32''"]
  have A: "filter is_spawn (new_events empty_world
        (invokeWith (example_host ''win32'') prepare_release_args empty_world))
      = [Exec ''/cache/acme/mycli/1.2.3/mycli''
           [''prepare-release'', ''--bump'', ''patch'', ''--repository-url'', '''']]
   \<and> filter is_registration (new_events empty_world
        (invokeWith (example_host ''win32'') prepare_release_args empty_world))
      = [CacheFile ''/tmp/extracted/mycli.exe'' ''mycli.exe'' ''acme/mycli'' ''1.2.3'']
   \<and> filter is_registration (new_events empty_world
        (run (example_host ''win32'') ''prepare'' empty_world))
      = [CacheFile ''/tmp/extracted/mycli.exe'' ''mycli.exe'' ''acme/mycli'' ''1.2.3'']"
    by (simp add: sel)
  from T2 h2 have B: "filter is_spawn (new_events cached_world
        (run (example_host ''win32'') ''prepare'' cached_world))
      = [Exec ''/cache/acme/mycli/1.2.3/mycli'' [''prepare'']]"
    by (simp add: sel)
  from A B m1 f h2 show ?thesis by simp
qed

text \<open>
  C5, as stated, fails: the argument builder is called after the resolution, so
  with an empty cache the manifest is read, the key is looked up and the archive
  is downloaded, extracted and registered before the missing input \<open>path\<close> is
  noticed.
\<close>

theorem C5_counterexample:
  "first_missing (inputs (example_host ''linux'')) update_builder_items = Some ''path''
   \<and> new_events empty_world (invokeWith (example_host ''linux'') update_builder_args empty_world)
     = [ReadFile ''/action/dist/../../Cargo.toml'',
        Find ''acme/mycli'' ''1.2.3'',
        Download
          ''https://github.com/acme/mycli/releases/download/v1.2.3/mycli-v1.2.3-linux-x64.tar.gz'',
        ExtractTar ''/tmp/archive'' (Some ''/tmp''),
        CacheFile ''/tmp/extracted/mycli'' ''mycli'' ''acme/mycli'' ''1.2.3'',
        SetFailed ''Input required and not supplied: path'']"
proof -
  have s: "supported ''linux''" by (simp add: supported_def)
  have g: "update_builder_args (core_accessors (example_host ''linux''))
             = Inl (Error ''Error'' (''Input required and not supplied: '' @ ''path''))"
    unfolding update_builder_args_def
    by (rule array_literal_missing [OF update_builder_example])
  have sel: "platform (example_host ''linux'') = ''linux''"
    "path_join (example_host ''linux'') = (\<lambda>a b. a @ ''/'' @ b)"
    "dirname (example_host ''linux'') = ''/action/dist''"
    "RUNNER_TEMP (example_host ''linux'') = Some ''/tmp''"
    "package_version (package example_toml) = ''1.2.3''"
    by (simp_all add: example_host_def example_toml_def)
  have "invokeWith (example_host ''linux'') update_builder_args empty_world
     = empty_world\<lparr>tool_cache :=
           (tool_cache empty_world)((''acme/mycli'', ''1.2.3'') \<mapsto> ''/cache/acme/mycli/1.2.3''),
         trace := trace empty_world @ [ReadFile ''/action/dist/../../Cargo.toml'',
        Find ''acme/mycli'' ''1.2.3'',
        Download
          ''https://github.com/acme/mycli/releases/download/v1.2.3/mycli-v1.2.3-linux-x64.tar.gz'',
        ExtractTar ''/tmp/archive'' (Some ''/tmp''),
        CacheFile ''/tmp/extracted/mycli'' ''mycli'' ''acme/mycli'' ''1.2.3'',
        SetFailed ''Input required and not supplied: path'']\<rparr>"
    unfolding invokeWith_def
      bootstrap_miss [OF example_miss [OF s] example_bin example_fetched]
    by (simp add: launch_def g setFailed_def log_event_def sel releaseUrl_def binaryName_def)
  then show ?thesis
    by (simp add: update_builder_example new_events_def)
qed

text \<open>
  C5, amended. When a required input of the array literal of a call site is
  missing, no process is started. The input is read when the arguments are built,
  after the resolution: where the lookup finds the directory, the manifest has
  been read and the key looked up by then; where it finds nothing and the
  download, extraction and registration succeed, these have happened as well. In
  both cases the invocation then reports exactly one failure,
  \<open>Input required and not supplied: \<close> followed by the name of the first missing
  required input.
\<close>

theorem C5_missing_input_fails_before_spawn:
  assumes "first_missing (inputs h) items = Some n"
  shows "filter is_spawn (new_events w (invokeWith h (array_literal items) w)) = []
     \<and> (first_bin_name t = Inr nm \<and> cache_hit h ''../../Cargo.toml'' w t key dir \<longrightarrow>
          new_events w (invokeWith h (array_literal items) w)
            = [ReadFile (path_join h (dirname h) ''../../Cargo.toml''),
               Find key (package_version (package t)),
               SetFailed (''Input required and not supplied: '' @ n)])
     \<and> (first_bin_name t = Inr nm \<and> cache_miss h ''../../Cargo.toml'' w t key
          \<and> fetched h t nm key downloadPath extractPath dir \<longrightarrow>
          new_events w (invokeWith h (array_literal items) w)
            = [ReadFile (path_join h (dirname h) ''../../Cargo.toml''),
               Find key (package_version (package t)),
               Download (releaseUrl key (package_version (package t)) nm (platform h)),
               ExtractTar downloadPath (RUNNER_TEMP h),
               CacheFile (path_join h extractPath (binaryName (platform h) nm))
                 (binaryName (platform h) nm) key (package_version (package t)),
               SetFailed (''Input required and not supplied: '' @ n)])"
proof -
  note g = array_literal_missing [OF assms]
  from bootstrap_events [of h "array_literal items" w] g obtain evs where
    e: "trace (snd (executeRustBinaryAction h (array_literal items) w)) = trace w @ evs"
      "filter is_spawn evs = []"
    by auto
  have "trace (invokeWith h (array_literal items) w) = trace w @ (evs
       @ (case fst (executeRustBinaryAction h (array_literal items) w) of
            Inl (Error n msg) \<Rightarrow> [SetFailed msg] | _ \<Rightarrow> []))"
    by (simp add: invokeWith_trace e(1))
  then have "new_events w (invokeWith h (array_literal items) w) = evs
       @ (case fst (executeRustBinaryAction h (array_literal items) w) of
            Inl (Error n msg) \<Rightarrow> [SetFailed msg] | _ \<Rightarrow> [])"
    by (rule new_events_append)
  with e(2) have none:
    "filter is_spawn (new_events w (invokeWith h (array_literal items) w)) = []"
    by (simp split: sum.splits thrown.splits)
  { assume a: "first_bin_name t = Inr nm" "cache_hit h ''../../Cargo.toml'' w t key dir"
    have "trace (invokeWith h (array_literal items) w) = trace w @
            [ReadFile (path_join h (dirname h) ''../../Cargo.toml''),
               Find key (package_version (package t)),
               SetFailed (''Input required and not supplied: '' @ n)]"
      unfolding invokeWith_def bootstrap_hit [OF a(2,1)]
      by (simp add: launch_def g setFailed_def log_event_def)
    then have "new_events w (invokeWith h (array_literal items) w)
            = [ReadFile (path_join h (dirname h) ''../../Cargo.toml''),
               Find key (package_version (package t)),
               SetFailed (''Input required and not supplied: '' @ n)]"
      by (rule new_events_append) }
  moreover
  { assume a: "first_bin_name t = Inr nm" "cache_miss h ''../../Cargo.toml'' w t key"
      "fetched h t nm key downloadPath extractPath dir"
    have "trace (invokeWith h (array_literal items) w) = trace w @
            [ReadFile (path_join h (dirname h) ''../../Cargo.toml''),
               Find key (package_version (package t)),
               Download (releaseUrl key (package_version (package t)) nm (platform h)),
               ExtractTar downloadPath (RUNNER_TEMP h),
               CacheFile (path_join h extractPath (binaryName (platform h) nm))
                 (binaryName (platform h) nm) key (package_version (package t)),
               SetFailed (''Input required and not supplied: '' @ n)]"
      unfolding invokeWith_def bootstrap_miss [OF a(2,1,3)]
      by (simp add: launch_def g setFailed_def log_event_def)
    then have "new_events w (invokeWith h (array_literal items) w)
            = [ReadFile (path_join h (dirname h) ''../../Cargo.toml''),
               Find key (package_version (package t)),
               Download (releaseUrl key (package_version (package t)) nm (platform h)),
               ExtractTar downloadPath (RUNNER_TEMP h),
               CacheFile (path_join h extractPath (binaryName (platform h) nm))
                 (binaryName (platform h) nm) key (package_version (package t)),
               SetFailed (''Input required and not supplied: '' @ n)]"
      by (rule new_events_append) }
  ultimately show ?thesis using none by blast
qed

theorem C5_missing_input_witness:
  "first_missing (inputs (example_host ''linux'')) update_builder_items = Some ''path''
   \<and> cache_hit (example_host ''linux'') ''../../Cargo.toml'' cached_world example_toml
        ''acme/mycli'' ''/cache/acme/mycli/1.2.3''
   \<and> filter is_spawn (new_events cached_world
        (invokeWith (example_host ''linux'') (array_literal update_builder_items) cached_world)) = []
   \<and> new_events cached_world
        (invokeWith (example_host ''linux'') (array_literal update_builder_items) cached_world)
      = [ReadFile ''/action/dist/../../Cargo.toml'', Find ''acme/mycli'' ''1.2.3'',
         SetFailed ''Input required and not supplied: path'']"
proof -
  have s: "supported ''linux''" by (simp add: supported_def)
  note h1 = example_hit [OF s, of "''../../Cargo.toml''"]
  have sel: "path_join (example_host ''linux'') = (\<lambda>a b. a @ ''/'' @ b)"
    "dirname (example_host ''linux'') = ''/action/dist''"
    "package_version (package example_toml) = ''1.2.3''"
    by (simp_all add: example_host_def example_toml_def)
  from C5_missing_input_fails_before_spawn [where h = "example_host ''linux''"
      and items = update_builder_items and n = "''path''" and w = cached_world
      and t = example_toml and nm = "''mycli''" and key = "''acme/mycli''"
      and dir = "''/cache/acme/mycli/1.2.3''" and downloadPath = "''/tmp/archive''"
      and extractPath = "''/tmp/extracted''", OF update_builder_example]
    h1 example_bin
  show ?thesis
    by (simp add: sel update_builder_example)
qed

text \<open>
  C6. When the platform is none of \<open>win32\<close>, \<open>darwin\<close> and \<open>linux\<close>, the
  invocation fails at once with the error \<open>Unsupported platform: \<close> followed by
  the platform. The only call it makes is the report of that failure: no file is
  read, nothing is looked up, downloaded, extracted or registered, and no process
  is started. The cache is untouched. This holds for both entry points.
\<close>

theorem C6_unsupported_platform:
  assumes "\<not> supported (platform h)"
  shows "fst (executeRustBinaryAction h g w)
           = Inl (Error ''Error'' (''Unsupported platform: '' @ platform h))
       \<and> invokeWith h g w = w\<lparr>trace := trace w @ [SetFailed (''Unsupported platform: '' @ platform h)]\<rparr>
       \<and> fst (execute_rust_binary_action h c w)
           = Inl (Error ''Error'' (''Unsupported platform: '' @ platform h))
       \<and> run h c w = w\<lparr>trace := trace w @ [SetFailed (''Unsupported platform: '' @ platform h)]\<rparr>"
proof -
  have "executeRustBinaryAction h g w
          = (Inl (Error ''Error'' (''Unsupported platform: '' @ platform h)), w)"
    unfolding executeRustBinaryAction_def supported_cond using assms by simp
  moreover have "execute_rust_binary_action h c w
          = (Inl (Error ''Error'' (''Unsupported platform: '' @ platform h)), w)"
    unfolding execute_rust_binary_action_def supported_cond using assms by simp
  ultimately show ?thesis
    by (simp add: invokeWith_def run_def setFailed_def log_event_def)
qed

theorem C6_unsupported_platform_witness:
  "\<not> supported ''freebsd''
   \<and> trace (invokeWith (example_host ''freebsd'') update_builder_args empty_world)
       = [SetFailed ''Unsupported platform: freebsd'']
   \<and> trace (run (example_host ''freebsd'') ''prepare'' empty_world)
       = [SetFailed ''Unsupported platform: freebsd'']"
proof -
  have s: "\<not> supported (platform (example_host ''freebsd''))"
    by (simp add: supported_def example_host_def)
  from C6_unsupported_platform [OF s, of update_builder_args empty_world "''prepare''"]
  show ?thesis
    by (simp add: supported_def example_host_def empty_world_def)
qed

text \<open>
  C7. On a supported platform the file name of the binary is the base name with
  \<open>.exe\<close> appended exactly when the platform is \<open>win32\<close>; on \<open>darwin\<close> and
  \<open>linux\<close> it is the bare name.
\<close>

theorem C7_binaryName_exe_iff_win32:
  assumes "supported pf"
  shows "(binaryName pf nm = nm @ ''.exe'' \<longleftrightarrow> pf = ''win32'')
       \<and> (pf = ''darwin'' \<or> pf = ''linux'' \<longrightarrow> binaryName pf nm = nm)"
  by (simp add: binaryName_def)

theorem C7_binaryName_witness:
  "supported ''win32'' \<and> binaryName ''win32'' ''mycli'' = ''mycli.exe''
   \<and> supported ''linux'' \<and> binaryName ''linux'' ''mycli'' = ''mycli''"
  using C7_binaryName_exe_iff_win32 [of "''win32''" "''mycli''"]
        C7_binaryName_exe_iff_win32 [of "''linux''" "''mycli''"]
  by (simp add: supported_def)

text \<open>
  C8. For a repository URL \<open>https://host/org/repo.git\<close> with well-formed host,
  organization and repository, the identifier derived is \<open>org/repo\<close>: the path
  of the URL without its leading slash and without the \<open>.git\<close> at its end. The
  same holds for \<open>https://host/org/repo\<close>, where the repository name does not
  itself end in \<open>.git\<close>.
\<close>

theorem C8_org_and_repo:
  assumes "segment_ok hostname" and "segment_ok org" and "segment_ok repo"
  shows "githubOrgAndName (''https://'' @ hostname @ ''/'' @ org @ ''/'' @ repo @ ''.git'')
           = Inr (org @ ''/'' @ repo)
       \<and> (\<not> ends_with ''.git'' repo \<longrightarrow>
            githubOrgAndName (''https://'' @ hostname @ ''/'' @ org @ ''/'' @ repo)
              = Inr (org @ ''/'' @ repo))"
proof -
  have plain: "x \<noteq> CHR ''?'' \<and> x \<noteq> CHR ''#''" if "x \<in> set (org @ ''/'' @ repo @ sfx)"
    and "sfx = ''.git'' \<or> sfx = []" for x sfx
    using that segment_ok_plain [OF assms(2)] segment_ok_plain [OF assms(3)] by auto
  have a: "urlParse_pathname (''https://'' @ hostname @ ''/'' @ (org @ ''/'' @ repo @ ''.git''))
             = Some (''/'' @ (org @ ''/'' @ repo @ ''.git''))"
    by (rule pathname_wellformed [OF assms(1)]) (rule plain [where sfx = "''.git''"], simp_all)
  have b: "urlParse_pathname (''https://'' @ hostname @ ''/'' @ (org @ ''/'' @ repo @ []))
             = Some (''/'' @ (org @ ''/'' @ repo @ []))"
    by (rule pathname_wellformed [OF assms(1)]) (rule plain [where sfx = "[]"], simp_all)
  have s: "replace_git_suffix (org @ CHR ''/'' # repo @ ''.git'') = org @ CHR ''/'' # repo"
    using replace_git_suffix_strip [of "org @ CHR ''/'' # repo"] by simp
  from a have "githubOrgAndName (''https://'' @ hostname @ ''/'' @ org @ ''/'' @ repo @ ''.git'')
           = Inr (org @ ''/'' @ repo)"
    by (simp add: githubOrgAndName_def replace_leading_slash_def s)
  moreover from b have "\<not> ends_with ''.git'' repo \<Longrightarrow>
            githubOrgAndName (''https://'' @ hostname @ ''/'' @ org @ ''/'' @ repo)
              = Inr (org @ ''/'' @ repo)"
    by (simp add: githubOrgAndName_def replace_leading_slash_def replace_git_suffix_keep)
  ultimately show ?thesis by blast
qed

theorem C8_org_and_repo_witness:
  "segment_ok ''github.com'' \<and> segment_ok ''acme'' \<and> segment_ok ''mycli''
   \<and> \<not> ends_with ''.git'' ''mycli''
   \<and> githubOrgAndName ''https://github.com/acme/mycli.git'' = Inr ''acme/mycli''
   \<and> githubOrgAndName ''https://github.com/acme/mycli'' = Inr ''acme/mycli''"
proof -
  have ok: "segment_ok ''github.com''" "segment_ok ''acme''" "segment_ok ''mycli''"
    by (simp_all add: segment_ok_def is_segment_char_def)
  have ne: "\<not> ends_with ''.git'' ''mycli''" by (simp add: ends_with_def)
  from C8_org_and_repo [OF ok] ne ok show ?thesis by simp
qed

text \<open>
  C9. Every step of an invocation that throws an \<open>Error\<close> ends the action there,
  and the entry point reports exactly one failure, after all other calls, whose
  text is the message of the error: the platform check, the reading and the
  parsing of the manifest (with its missing binary and the path of its repository
  URL), the download, the extraction, the registration, the argument builder (a
  missing required input, say) and the execution. The events of the invocation
  are the calls up to and including the failing one, each made once, followed by
  the one report, so nothing is retried and nothing passes the entry point, which
  returns a world. The name of the error plays no part. This holds for both entry
  points.
\<close>

theorem C9_error_reported_once:
  "(executeRustBinaryAction h g w = (Inl (Error n msg), w1) \<longrightarrow>
      invokeWith h g w = w1\<lparr>trace := trace w1 @ [SetFailed msg]\<rparr>
    \<and> filter is_failure (new_events w (invokeWith h g w)) = [SetFailed msg]
    \<and> distinct (map operation (new_events w (invokeWith h g w))))
   \<and> (execute_rust_binary_action h c w = (Inl (Error n msg), w1) \<longrightarrow>
      run h c w = w1\<lparr>trace := trace w1 @ [SetFailed msg]\<rparr>
    \<and> filter is_failure (new_events w (run h c w)) = [SetFailed msg]
    \<and> distinct (map operation (new_events w (run h c w))))
   \<and> (\<not> supported (platform h) \<longrightarrow>
        new_events w (invokeWith h g w)
          = [SetFailed (''Unsupported platform: '' @ platform h)])
   \<and> (supported (platform h)
        \<and> readFileSync h (path_join h (dirname h) ''../../Cargo.toml'') = Inl (Error n msg) \<longrightarrow>
        new_events w (invokeWith h g w)
          = [ReadFile (path_join h (dirname h) ''../../Cargo.toml''), SetFailed msg])
   \<and> (supported (platform h)
        \<and> readFileSync h (path_join h (dirname h) ''../../Cargo.toml'') = Inr body
        \<and> tomlParse h body = Inl (Error n msg) \<longrightarrow>
        new_events w (invokeWith h g w)
          = [ReadFile (path_join h (dirname h) ''../../Cargo.toml''), SetFailed msg])
   \<and> (supported (platform h) \<and> manifest_of h ''../../Cargo.toml'' = Inr t
        \<and> first_bin_name t = Inl (Error n msg) \<longrightarrow>
        new_events w (invokeWith h g w)
          = [ReadFile (path_join h (dirname h) ''../../Cargo.toml''), SetFailed msg])
   \<and> (supported (platform h) \<and> manifest_of h ''../../Cargo.toml'' = Inr t
        \<and> first_bin_name t = Inr nm
        \<and> githubOrgAndName (package_repository (package t)) = Inl (Error n msg) \<longrightarrow>
        new_events w (invokeWith h g w)
          = [ReadFile (path_join h (dirname h) ''../../Cargo.toml''), SetFailed msg])
   \<and> (cache_miss h ''../../Cargo.toml'' w t key \<and> first_bin_name t = Inr nm
        \<and> downloadTool h (releaseUrl key (package_version (package t)) nm (platform h))
             = Inl (Error n msg) \<longrightarrow>
        new_events w (invokeWith h g w)
          = [ReadFile (path_join h (dirname h) ''../../Cargo.toml''),
             Find key (package_version (package t)),
             Download (releaseUrl key (package_version (package t)) nm (platform h)),
             SetFailed msg])
   \<and> (cache_miss h ''../../Cargo.toml'' w t key \<and> first_bin_name t = Inr nm
        \<and> downloadTool h (releaseUrl key (package_version (package t)) nm (platform h))
             = Inr downloadPath
        \<and> extractTar h downloadPath (RUNNER_TEMP h) = Inl (Error n msg) \<longrightarrow>
        new_events w (invokeWith h g w)
          = [ReadFile (path_join h (dirname h) ''../../Cargo.toml''),
             Find key (package_version (package t)),
             Download (releaseUrl key (package_version (package t)) nm (platform h)),
             ExtractTar downloadPath (RUNNER_TEMP h),
             SetFailed msg])
   \<and> (cache_miss h ''../../Cargo.toml'' w t key \<and> first_bin_name t = Inr nm
        \<and> downloadTool h (releaseUrl key (package_version (package t)) nm (platform h))
             = Inr downloadPath
        \<and> extractTar h downloadPath (RUNNER_TEMP h) = Inr extractPath
        \<and> cacheFile h (path_join h extractPath (binaryName (platform h) nm))
             (binaryName (platform h) nm) key (package_version (package t))
             = Inl (Error n msg) \<longrightarrow>
        new_events w (invokeWith h g w)
          = [ReadFile (path_join h (dirname h) ''../../Cargo.toml''),
             Find key (package_version (package t)),
             Download (releaseUrl key (package_version (package t)) nm (platform h)),
             ExtractTar downloadPath (RUNNER_TEMP h),
             CacheFile (path_join h extractPath (binaryName (platform h) nm))
               (binaryName (platform h) nm) key (package_version (package t)),
             SetFailed msg])
   \<and> (cache_hit h ''../../Cargo.toml'' w t key dir \<and> first_bin_name t = Inr nm
        \<and> g (core_accessors h) = Inl (Error n msg) \<longrightarrow>
        new_events w (invokeWith h g w)
          = [ReadFile (path_join h (dirname h) ''../../Cargo.toml''),
             Find key (package_version (package t)),
             SetFailed msg])
   \<and> (cache_miss h ''../../Cargo.toml'' w t key \<and> first_bin_name t = Inr nm
        \<and> fetched h t nm key downloadPath extractPath dir
        \<and> g (core_accessors h) = Inl (Error n msg) \<longrightarrow>
        new_events w (invokeWith h g w)
          = [ReadFile (path_join h (dirname h) ''../../Cargo.toml''),
             Find key (package_version (package t)),
             Download (releaseUrl key (package_version (package t)) nm (platform h)),
             ExtractTar downloadPath (RUNNER_TEMP h),
             CacheFile (path_join h extractPath (binaryName (platform h) nm))
               (binaryName (platform h) nm) key (package_version (package t)),
             SetFailed msg])
   \<and> (cache_hit h ''../../Cargo.toml'' w t key dir \<and> first_bin_name t = Inr nm
        \<and> g (core_accessors h) = Inr args
        \<and> exec h (path_join h dir nm) args = Inl (Error n msg) \<longrightarrow>
        new_events w (invokeWith h g w)
          = [ReadFile (path_join h (dirname h) ''../../Cargo.toml''),
             Find key (package_version (package t)),
             Exec (path_join h dir nm) args,
             SetFailed msg])
   \<and> (cache_miss h ''../../Cargo.toml'' w t key \<and> first_bin_name t = Inr nm
        \<and> fetched h t nm key downloadPath extractPath dir
        \<and> g (core_accessors h) = Inr args
        \<and> exec h (path_join h dir nm) args = Inl (Error n msg) \<longrightarrow>
        new_events w (invokeWith h g w)
          = [ReadFile (path_join h (dirname h) ''../../Cargo.toml''),
             Find key (package_version (package t)),
             Download (releaseUrl key (package_version (package t)) nm (platform h)),
             ExtractTar downloadPath (RUNNER_TEMP h),
             CacheFile (path_join h extractPath (binaryName (platform h) nm))
               (binaryName (platform h) nm) key (package_version (package t)),
             Exec (path_join h dir nm) args,
             SetFailed msg])
   \<and> (\<not> supported (platform h) \<longrightarrow>
        new_events w (run h c w) = [SetFailed (''Unsupported platform: '' @ platform h)])
   \<and> (supported (platform h)
        \<and> readFileSync h (path_join h (dirname h) ''../Cargo.toml'') = Inl (Error n msg) \<longrightarrow>
        new_events w (run h c w)
          = [ReadFile (path_join h (dirname h) ''../Cargo.toml''), SetFailed msg])
   \<and> (supported (platform h)
        \<and> readFileSync h (path_join h (dirname h) ''../Cargo.toml'') = Inr body
        \<and> tomlParse h body = Inl (Error n msg) \<longrightarrow>
        new_events w (run h c w)
          = [ReadFile (path_join h (dirname h) ''../Cargo.toml''), SetFailed msg])
   \<and> (supported (platform h) \<and> manifest_of h ''../Cargo.toml'' = Inr t
        \<and> githubOrgAndName (package_repository (package t)) = Inl (Error n msg) \<longrightarrow>
        new_events w (run h c w)
          = [ReadFile (path_join h (dirname h) ''../Cargo.toml''), SetFailed msg])
   \<and> (cache_miss h ''../Cargo.toml'' w t key
        \<and> downloadTool h (releaseUrl key (package_version (package t))
             (package_name (package t)) (platform h)) = Inl (Error n msg) \<longrightarrow>
        new_events w (run h c w)
          = [ReadFile (path_join h (dirname h) ''../Cargo.toml''),
             Find key (package_version (package t)),
             Download (releaseUrl key (package_version (package t))
               (package_name (package t)) (platform h)),
             SetFailed msg])
   \<and> (cache_miss h ''../Cargo.toml'' w t key
        \<and> downloadTool h (releaseUrl key (package_version (package t))
             (package_name (package t)) (platform h)) = Inr downloadPath
        \<and> extractTar h downloadPath (RUNNER_TEMP h) = Inl (Error n msg) \<longrightarrow>
        new_events w (run h c w)
          = [ReadFile (path_join h (dirname h) ''../Cargo.toml''),
             Find key (package_version (package t)),
             Download (releaseUrl key (package_version (package t))
               (package_name (package t)) (platform h)),
             ExtractTar downloadPath (RUNNER_TEMP h),
             SetFailed msg])
   \<and> (cache_miss h ''../Cargo.toml'' w t key
        \<and> downloadTool h (releaseUrl key (package_version (package t))
             (package_name (package t)) (platform h)) = Inr downloadPath
        \<and> extractTar h downloadPath (RUNNER_TEMP h) = Inr extractPath
        \<and> cacheFile h
             (path_join h extractPath (binaryName (platform h) (package_name (package t))))
             (binaryName (platform h) (package_name (package t))) key
             (package_version (package t)) = Inl (Error n msg) \<longrightarrow>
        new_events w (run h c w)
          = [ReadFile (path_join h (dirname h) ''../Cargo.toml''),
             Find key (package_version (package t)),
             Download (releaseUrl key (package_version (package t))
               (package_name (package t)) (platform h)),
             ExtractTar downloadPath (RUNNER_TEMP h),
             CacheFile
               (path_join h extractPath (binaryName (platform h) (package_name (package t))))
               (binaryName (platform h) (package_name (package t))) key
               (package_version (package t)),
             SetFailed msg])
   \<and> (cache_hit h ''../Cargo.toml'' w t key dir
        \<and> exec h (path_join h dir (package_name (package t))) [c] = Inl (Error n msg) \<longrightarrow>
        new_events w (run h c w)
          = [ReadFile (path_join h (dirname h) ''../Cargo.toml''),
             Find key (package_version (package t)),
             Exec (path_join h dir (package_name (package t))) [c],
             SetFailed msg])
   \<and> (cache_miss h ''../Cargo.toml'' w t key
        \<and> fetched h t (package_name (package t)) key downloadPath extractPath dir
        \<and> exec h (path_join h dir (package_name (package t))) [c] = Inl (Error n msg) \<longrightarrow>
        new_events w (run h c w)
          = [ReadFile (path_join h (dirname h) ''../Cargo.toml''),
             Find key (package_version (package t)),
             Download (releaseUrl key (package_version (package t))
               (package_name (package t)) (platform h)),
             ExtractTar downloadPath (RUNNER_TEMP h),
             CacheFile
               (path_join h extractPath (binaryName (platform h) (package_name (package t))))
               (binaryName (platform h) (package_name (package t))) key
               (package_version (package t)),
             Exec (path_join h dir (package_name (package t))) [c],
             SetFailed msg])"
proof -
  { assume a: "executeRustBinaryAction h g w = (Inl (Error n msg), w1)"
    from bootstrap_events [of h g w] a obtain evs where
      e: "trace w1 = trace w @ evs" "map operation evs \<in> set call_sequences"
      by auto
    have i: "invokeWith h g w = w1\<lparr>trace := trace w1 @ [SetFailed msg]\<rparr>"
      by (simp add: invokeWith_def a setFailed_def log_event_def)
    then have "trace (invokeWith h g w) = trace w @ (evs @ [SetFailed msg])"
      using e by simp
    then have ne: "new_events w (invokeWith h g w) = evs @ [SetFailed msg]"
      by (rule new_events_append)
    have "''setFailed'' \<notin> set (map operation evs)"
      using e(2) by (auto simp: call_sequences_def)
    with ne i call_sequences_no_setFailed [OF e(2)] call_sequences_distinct [OF e(2)]
    have "invokeWith h g w = w1\<lparr>trace := trace w1 @ [SetFailed msg]\<rparr>
      \<and> filter is_failure (new_events w (invokeWith h g w)) = [SetFailed msg]
      \<and> distinct (map operation (new_events w (invokeWith h g w)))"
      by simp }
  note G1 = this
  { assume a: "execute_rust_binary_action h c w = (Inl (Error n msg), w1)"
    from variant_events [of h c w] a obtain evs where
      e: "trace w1 = trace w @ evs" "map operation evs \<in> set call_sequences"
      by auto
    have i: "run h c w = w1\<lparr>trace := trace w1 @ [SetFailed msg]\<rparr>"
      by (simp add: run_def a setFailed_def log_event_def)
    then have "trace (run h c w) = trace w @ (evs @ [SetFailed msg])"
      using e by simp
    then have ne: "new_events w (run h c w) = evs @ [SetFailed msg]"
      by (rule new_events_append)
    have "''setFailed'' \<notin> set (map operation evs)"
      using e(2) by (auto simp: call_sequences_def)
    with ne i call_sequences_no_setFailed [OF e(2)] call_sequences_distinct [OF e(2)]
    have "run h c w = w1\<lparr>trace := trace w1 @ [SetFailed msg]\<rparr>
      \<and> filter is_failure (new_events w (run h c w)) = [SetFailed msg]
      \<and> distinct (map operation (new_events w (run h c w)))"
      by simp }
  note G2 = this
  { assume "\<not> supported (platform h)"
    then have "executeRustBinaryAction h g w
          = (Inl (Error ''Error'' (''Unsupported platform: '' @ platform h)), w)"
      "execute_rust_binary_action h c w
          = (Inl (Error ''Error'' (''Unsupported platform: '' @ platform h)), w)"
      unfolding executeRustBinaryAction_def execute_rust_binary_action_def supported_cond
      by simp_all
    then have "new_events w (invokeWith h g w)
          = [SetFailed (''Unsupported platform: '' @ platform h)]"
      "new_events w (run h c w) = [SetFailed (''Unsupported platform: '' @ platform h)]"
      by (simp_all add: invokeWith_def run_def setFailed_def log_event_def new_events_def) }
  note B1 = this(1) and V1 = this(2)
  { assume a: "supported (platform h)" "readFileSync h (path_join h (dirname h) ''../../Cargo.toml'') = Inl (Error n msg)"
    have "new_events w (invokeWith h g w)
          = [ReadFile (path_join h (dirname h) ''../../Cargo.toml''),
             SetFailed msg]"
      by (simp add: invokeWith_def bootstrap_read_fails [OF a] setFailed_def log_event_def new_events_def) }
  note B2 = this
  { assume a: "supported (platform h)" "readFileSync h (path_join h (dirname h) ''../../Cargo.toml'') = Inr body" "tomlParse h body = Inl (Error n msg)"
    have "new_events w (invokeWith h g w)
          = [ReadFile (path_join h (dirname h) ''../../Cargo.toml''),
             SetFailed msg]"
      by (simp add: invokeWith_def bootstrap_parse_fails [OF a] setFailed_def log_event_def new_events_def) }
  note B3 = this
  { assume a: "supported (platform h)" "manifest_of h ''../../Cargo.toml'' = Inr t" "first_bin_name t = Inl (Error n msg)"
    have "new_events w (invokeWith h g w)
          = [ReadFile (path_join h (dirname h) ''../../Cargo.toml''),
             SetFailed msg]"
      by (simp add: invokeWith_def bootstrap_bin_fails [OF a] setFailed_def log_event_def new_events_def) }
  note B4 = this
  { assume a: "supported (platform h)" "manifest_of h ''../../Cargo.toml'' = Inr t" "first_bin_name t = Inr nm" "githubOrgAndName (package_repository (package t)) = Inl (Error n msg)"
    have "new_events w (invokeWith h g w)
          = [ReadFile (path_join h (dirname h) ''../../Cargo.toml''),
             SetFailed msg]"
      by (simp add: invokeWith_def bootstrap_key_fails [OF a] setFailed_def log_event_def new_events_def) }
  note B5 = this
  { assume a: "cache_miss h ''../../Cargo.toml'' w t key" "first_bin_name t = Inr nm" "downloadTool h (releaseUrl key (package_version (package t)) nm (platform h)) = Inl (Error n msg)"
    have "new_events w (invokeWith h g w)
          = [ReadFile (path_join h (dirname h) ''../../Cargo.toml''),
             Find key (package_version (package t)),
             Download (releaseUrl key (package_version (package t)) nm (platform h)),
             SetFailed msg]"
      by (simp add: invokeWith_def bootstrap_download_fails [OF a] setFailed_def log_event_def new_events_def) }
  note B6 = this
  { assume a: "cache_miss h ''../../Cargo.toml'' w t key" "first_bin_name t = Inr nm" "downloadTool h (releaseUrl key (package_version (package t)) nm (platform h)) = Inr downloadPath" "extractTar h downloadPath (RUNNER_TEMP h) = Inl (Error n msg)"
    have "new_events w (invokeWith h g w)
          = [ReadFile (path_join h (dirname h) ''../../Cargo.toml''),
             Find key (package_version (package t)),
             Download (releaseUrl key (package_version (package t)) nm (platform h)),
             ExtractTar downloadPath (RUNNER_TEMP h),
             SetFailed msg]"
      by (simp add: invokeWith_def bootstrap_extract_fails [OF a] setFailed_def log_event_def new_events_def) }
  note B7 = this
  { assume a: "cache_miss h ''../../Cargo.toml'' w t key" "first_bin_name t = Inr nm" "downloadTool h (releaseUrl key (package_version (package t)) nm (platform h)) = Inr downloadPath" "extractTar h downloadPath (RUNNER_TEMP h) = Inr extractPath" "cacheFile h (path_join h extractPath (binaryName (platform h) nm)) (binaryName (platform h) nm) key (package_version (package t)) = Inl (Error n msg)"
    have "new_events w (invokeWith h g w)
          = [ReadFile (path_join h (dirname h) ''../../Cargo.toml''),
             Find key (package_version (package t)),
             Download (releaseUrl key (package_version (package t)) nm (platform h)),
             ExtractTar downloadPath (RUNNER_TEMP h),
             CacheFile (path_join h extractPath (binaryName (platform h) nm)) (binaryName (platform h) nm) key (package_version (package t)),
             SetFailed msg]"
      by (simp add: invokeWith_def bootstrap_register_fails [OF a] setFailed_def log_event_def new_events_def) }
  note B8 = this
  { assume a: "cache_hit h ''../../Cargo.toml'' w t key dir" "first_bin_name t = Inr nm"
    { assume "g (core_accessors h) = Inl (Error n msg)"
      then have "new_events w (invokeWith h g w)
          = [ReadFile (path_join h (dirname h) ''../../Cargo.toml''),
             Find key (package_version (package t)),
             SetFailed msg]"
        by (simp add: invokeWith_def bootstrap_hit [OF a] launch_def setFailed_def
            log_event_def new_events_def) }
    moreover
    { assume "g (core_accessors h) = Inr args"
        "exec h (path_join h dir nm) args = Inl (Error n msg)"
      then have "new_events w (invokeWith h g w)
          = [ReadFile (path_join h (dirname h) ''../../Cargo.toml''),
             Find key (package_version (package t)),
             Exec (path_join h dir nm) args,
             SetFailed msg]"
        by (simp add: invokeWith_def bootstrap_hit [OF a] launch_def setFailed_def
            log_event_def new_events_def) }
    ultimately have
      "g (core_accessors h) = Inl (Error n msg) \<longrightarrow>
        new_events w (invokeWith h g w)
          = [ReadFile (path_join h (dirname h) ''../../Cargo.toml''),
             Find key (package_version (package t)),
             SetFailed msg]"
      "g (core_accessors h) = Inr args
        \<and> exec h (path_join h dir nm) args = Inl (Error n msg) \<longrightarrow>
        new_events w (invokeWith h g w)
          = [ReadFile (path_join h (dirname h) ''../../Cargo.toml''),
             Find key (package_version (package t)),
             Exec (path_join h dir nm) args,
             SetFailed msg]"
      by blast+ }
  note B9 = this(1) and B11 = this(2)
  { assume a: "cache_miss h ''../../Cargo.toml'' w t key" "first_bin_name t = Inr nm"
      "fetched h t nm key downloadPath extractPath dir"
    { assume "g (core_accessors h) = Inl (Error n msg)"
      then have "new_events w (invokeWith h g w)
          = [ReadFile (path_join h (dirname h) ''../../Cargo.toml''),
             Find key (package_version (package t)),
             Download (releaseUrl key (package_version (package t)) nm (platform h)),
             ExtractTar downloadPath (RUNNER_TEMP h),
             CacheFile (path_join h extractPath (binaryName (platform h) nm))
               (binaryName (platform h) nm) key (package_version (package t)),
             SetFailed msg]"
        by (simp add: invokeWith_def bootstrap_miss [OF a] launch_def setFailed_def
            log_event_def new_events_def) }
    moreover
    { assume "g (core_accessors h) = Inr args"
        "exec h (path_join h dir nm) args = Inl (Error n msg)"
      then have "new_events w (invokeWith h g w)
          = [ReadFile (path_join h (dirname h) ''../../Cargo.toml''),
             Find key (package_version (package t)),
             Download (releaseUrl key (package_version (package t)) nm (platform h)),
             ExtractTar downloadPath (RUNNER_TEMP h),
             CacheFile (path_join h extractPath (binaryName (platform h) nm))
               (binaryName (platform h) nm) key (package_version (package t)),
             Exec (path_join h dir nm) args,
             SetFailed msg]"
        by (simp add: invokeWith_def bootstrap_miss [OF a] launch_def setFailed_def
            log_event_def new_events_def) }
    ultimately have
      "g (core_accessors h) = Inl (Error n msg) \<longrightarrow>
        new_events w (invokeWith h g w)
          = [ReadFile (path_join h (dirname h) ''../../Cargo.toml''),
             Find key (package_version (package t)),
             Download (releaseUrl key (package_version (package t)) nm (platform h)),
             ExtractTar downloadPath (RUNNER_TEMP h),
             CacheFile (path_join h extractPath (binaryName (platform h) nm))
               (binaryName (platform h) nm) key (package_version (package t)),
             SetFailed msg]"
      "g (core_accessors h) = Inr args
        \<and> exec h (path_join h dir nm) args = Inl (Error n msg) \<longrightarrow>
        new_events w (invokeWith h g w)
          = [ReadFile (path_join h (dirname h) ''../../Cargo.toml''),
             Find key (package_version (package t)),
             Download (releaseUrl key (package_version (package t)) nm (platform h)),
             ExtractTar downloadPath (RUNNER_TEMP h),
             CacheFile (path_join h extractPath (binaryName (platform h) nm))
               (binaryName (platform h) nm) key (package_version (package t)),
             Exec (path_join h dir nm) args,
             SetFailed msg]"
      by blast+ }
  note B10 = this(1) and B12 = this(2)
  { assume a: "supported (platform h)" "readFileSync h (path_join h (dirname h) ''../Cargo.toml'') = Inl (Error n msg)"
    have "new_events w (run h c w)
          = [ReadFile (path_join h (dirname h) ''../Cargo.toml''),
             SetFailed msg]"
      by (simp add: run_def variant_read_fails [OF a] setFailed_def log_event_def new_events_def) }
  note V2 = this
  { assume a: "supported (platform h)" "readFileSync h (path_join h (dirname h) ''../Cargo.toml'') = Inr body" "tomlParse h body = Inl (Error n msg)"
    have "new_events w (run h c w)
          = [ReadFile (path_join h (dirname h) ''../Cargo.toml''),
             SetFailed msg]"
      by (simp add: run_def variant_parse_fails [OF a] setFailed_def log_event_def new_events_def) }
  note V3 = this
  { assume a: "supported (platform h)" "manifest_of h ''../Cargo.toml'' = Inr t" "githubOrgAndName (package_repository (package t)) = Inl (Error n msg)"
    have "new_events w (run h c w)
          = [ReadFile (path_join h (dirname h) ''../Cargo.toml''),
             SetFailed msg]"
      by (simp add: run_def variant_key_fails [OF a] setFailed_def log_event_def new_events_def) }
  note V4 = this
  { assume a: "cache_miss h ''../Cargo.toml'' w t key" "downloadTool h (releaseUrl key (package_version (package t)) (package_name (package t)) (platform h)) = Inl (Error n msg)"
    have "new_events w (run h c w)
          = [ReadFile (path_join h (dirname h) ''../Cargo.toml''),
             Find key (package_version (package t)),
             Download (releaseUrl key (package_version (package t)) (package_name (package t)) (platform h)),
             SetFailed msg]"
      by (simp add: run_def variant_download_fails [OF a] setFailed_def log_event_def new_events_def) }
  note V5 = this
  { assume a: "cache_miss h ''../Cargo.toml'' w t key" "downloadTool h (releaseUrl key (package_version (package t)) (package_name (package t)) (platform h)) = Inr downloadPath" "extractTar h downloadPath (RUNNER_TEMP h) = Inl (Error n msg)"
    have "new_events w (run h c w)
          = [ReadFile (path_join h (dirname h) ''../Cargo.toml''),
             Find key (package_version (package t)),
             Download (releaseUrl key (package_version (package t)) (package_name (package t)) (platform h)),
             ExtractTar downloadPath (RUNNER_TEMP h),
             SetFailed msg]"
      by (simp add: run_def variant_extract_fails [OF a] setFailed_def log_event_def new_events_def) }
  note V6 = this
  { assume a: "cache_miss h ''../Cargo.toml'' w t key" "downloadTool h (releaseUrl key (package_version (package t)) (package_name (package t)) (platform h)) = Inr downloadPath" "extractTar h downloadPath (RUNNER_TEMP h) = Inr extractPath" "cacheFile h (path_join h extractPath (binaryName (platform h) (package_name (package t)))) (binaryName (platform h) (package_name (package t))) key (package_version (package t)) = Inl (Error n msg)"
    have "new_events w (run h c w)
          = [ReadFile (path_join h (dirname h) ''../Cargo.toml''),
             Find key (package_version (package t)),
             Download (releaseUrl key (package_version (package t)) (package_name (package t)) (platform h)),
             ExtractTar downloadPath (RUNNER_TEMP h),
             CacheFile (path_join h extractPath (binaryName (platform h) (package_name (package t)))) (binaryName (platform h) (package_name (package t))) key (package_version (package t)),
             SetFailed msg]"
      by (simp add: run_def variant_register_fails [OF a] setFailed_def log_event_def new_events_def) }
  note V7 = this
  { assume a: "cache_hit h ''../Cargo.toml'' w t key dir"
      "exec h (path_join h dir (package_name (package t))) [c] = Inl (Error n msg)"
    then have "new_events w (run h c w)
          = [ReadFile (path_join h (dirname h) ''../Cargo.toml''),
             Find key (package_version (package t)),
             Exec (path_join h dir (package_name (package t))) [c],
             SetFailed msg]"
      by (simp add: run_def variant_hit [OF a(1)] launch_def setFailed_def
          log_event_def new_events_def) }
  note V8 = this
  { assume a: "cache_miss h ''../Cargo.toml'' w t key"
      "fetched h t (package_name (package t)) key downloadPath extractPath dir"
      "exec h (path_join h dir (package_name (package t))) [c] = Inl (Error n msg)"
    then have "new_events w (run h c w)
          = [ReadFile (path_join h (dirname h) ''../Cargo.toml''),
             Find key (package_version (package t)),
             Download (releaseUrl key (package_version (package t))
               (package_name (package t)) (platform h)),
             ExtractTar downloadPath (RUNNER_TEMP h),
             CacheFile
               (path_join h extractPath (binaryName (platform h) (package_name (package t))))
               (binaryName (platform h) (package_name (package t))) key
               (package_version (package t)),
             Exec (path_join h dir (package_name (package t))) [c],
             SetFailed msg]"
      by (simp add: run_def variant_miss [OF a(1,2)] launch_def setFailed_def
          log_event_def new_events_def) }
  note V9 = this
  show ?thesis
    apply (intro conjI impI)
    subgoal using G1 by blast
    subgoal using G1 by blast
    subgoal using G1 by blast
    subgoal using G2 by blast
    subgoal using G2 by blast
    subgoal using G2 by blast
    subgoal by (rule B1)
    subgoal by (elim conjE) (rule B2)
    subgoal by (elim conjE) (rule B3)
    subgoal by (elim conjE) (rule B4)
    subgoal by (elim conjE) (rule B5)
    subgoal by (elim conjE) (rule B6)
    subgoal by (elim conjE) (rule B7)
    subgoal by (elim conjE) (rule B8)
    subgoal using B9 by blast
    subgoal using B10 by blast
    subgoal using B11 by blast
    subgoal using B12 by blast
    subgoal by (rule V1)
    subgoal by (elim conjE) (rule V2)
    subgoal by (elim conjE) (rule V3)
    subgoal by (elim conjE) (rule V4)
    subgoal by (elim conjE) (rule V5)
    subgoal by (elim conjE) (rule V6)
    subgoal by (elim conjE) (rule V7)
    subgoal using V8 by blast
    subgoal using V9 by blast
    done
qed

theorem C9_error_reported_once_witness:
  "cache_miss offline_host ''../../Cargo.toml'' empty_world example_toml ''acme/mycli''
   \<and> downloadTool offline_host (releaseUrl ''acme/mycli'' ''1.2.3'' ''mycli'' ''linux'')
       = Inl (Error ''HTTPError'' ''Unexpected HTTP response: 404'')
   \<and> new_events empty_world (invokeWith offline_host update_builder_args empty_world)
       = [ReadFile ''/action/dist/../../Cargo.toml'', Find ''acme/mycli'' ''1.2.3'',
          Download (releaseUrl ''acme/mycli'' ''1.2.3'' ''mycli'' ''linux''),
          SetFailed ''Unexpected HTTP response: 404'']
   \<and> filter is_failure (new_events empty_world (run offline_host ''prepare'' empty_world))
       = [SetFailed ''Unexpected HTTP response: 404'']
   \<and> cache_hit exec_failing_host ''../../Cargo.toml'' cached_world example_toml ''acme/mycli''
        ''/cache/acme/mycli/1.2.3''
   \<and> exec exec_failing_host ''/cache/acme/mycli/1.2.3/mycli''
        [''prepare-release'', ''--bump'', ''patch'', ''--repository-url'', '''']
       = Inl (Error ''Error'' ''The process failed with exit code 1'')
   \<and> new_events cached_world (invokeWith exec_failing_host prepare_release_args cached_world)
       = [ReadFile ''/action/dist/../../Cargo.toml'', Find ''acme/mycli'' ''1.2.3'',
          Exec ''/cache/acme/mycli/1.2.3/mycli''
            [''prepare-release'', ''--bump'', ''patch'', ''--repository-url'', ''''],
          SetFailed ''The process failed with exit code 1'']
   \<and> new_events cached_world (run exec_failing_host ''prepare'' cached_world)
       = [ReadFile ''/action/dist/../Cargo.toml'', Find ''acme/mycli'' ''1.2.3'',
          Exec ''/cache/acme/mycli/1.2.3/mycli'' [''prepare''],
          SetFailed ''The process failed with exit code 1'']
   \<and> new_events cached_world
        (invokeWith (example_host ''linux'') update_builder_args cached_world)
       = [ReadFile ''/action/dist/../../Cargo.toml'', Find ''acme/mycli'' ''1.2.3'',
          SetFailed ''Input required and not supplied: path'']"
proof -
  have sel1: "platform offline_host = ''linux''"
    "path_join offline_host = (\<lambda>a b. a @ ''/'' @ b)"
    "dirname offline_host = ''/action/dist''"
    "downloadTool offline_host = (\<lambda>u. Inl (Error ''HTTPError'' ''Unexpected HTTP response: 404''))"
    by (simp_all add: offline_host_def example_host_def)
  have sel2: "platform exec_failing_host = ''linux''"
    "path_join exec_failing_host = (\<lambda>a b. a @ ''/'' @ b)"
    "dirname exec_failing_host = ''/action/dist''"
    "exec exec_failing_host = (\<lambda>c a. Inl (Error ''Error'' ''The process failed with exit code 1''))"
    by (simp_all add: exec_failing_host_def example_host_def)
  have selt: "package_version (package example_toml) = ''1.2.3''"
    "package_name (package example_toml) = ''mycli''"
    by (simp_all add: example_toml_def)
  have args: "prepare_release_args (core_accessors exec_failing_host)
     = Inr [''prepare-release'', ''--bump'', ''patch'', ''--repository-url'', '''']"
    by (simp add: prepare_release_args_def prepare_release_items_def core_accessors_def
      core_getInput_def exec_failing_host_def example_host_def trim_def is_space_def Let_def)
  note m1 = offline_miss [of "''../../Cargo.toml''"]
  note m2 = offline_miss [of "''../Cargo.toml''"]
  note h1 = exec_failing_hit [of "''../../Cargo.toml''"]
  note h2 = exec_failing_hit [of "''../Cargo.toml''"]
  note T1 = C9_error_reported_once [where h = offline_host and g = update_builder_args
      and w = empty_world and c = "''prepare''" and t = example_toml and key = "''acme/mycli''"
      and nm = "''mycli''" and n = "''HTTPError''" and msg = "''Unexpected HTTP response: 404''"
      and ?w1.0 = "snd (execute_rust_binary_action offline_host ''prepare'' empty_world)"]
  note T2 = C9_error_reported_once [where h = exec_failing_host and g = prepare_release_args
      and w = cached_world and c = "''prepare''" and t = example_toml and key = "''acme/mycli''"
      and nm = "''mycli''" and dir = "''/cache/acme/mycli/1.2.3''" and n = "''Error''"
      and msg = "''The process failed with exit code 1''"
      and args = "[''prepare-release'', ''--bump'', ''patch'', ''--repository-url'', '''']"]
  have d: "downloadTool offline_host
         (releaseUrl ''acme/mycli'' (package_version (package example_toml)) ''mycli''
            (platform offline_host))
       = Inl (Error ''HTTPError'' ''Unexpected HTTP response: 404'')"
    by (simp add: sel1)
  have d0: "downloadTool offline_host (releaseUrl ''acme/mycli'' ''1.2.3'' ''mycli'' ''linux'')
       = Inl (Error ''HTTPError'' ''Unexpected HTTP response: 404'')"
    by (simp add: sel1)
  have x': "exec exec_failing_host
         (path_join exec_failing_host ''/cache/acme/mycli/1.2.3'' ''mycli'')
         [''prepare-release'', ''--bump'', ''patch'', ''--repository-url'', '''']
       = Inl (Error ''Error'' ''The process failed with exit code 1'')"
    and x'': "exec exec_failing_host
         (path_join exec_failing_host ''/cache/acme/mycli/1.2.3''
            (package_name (package example_toml))) [''prepare'']
       = Inl (Error ''Error'' ''The process failed with exit code 1'')"
    by (simp_all add: sel2)
  have x: "exec exec_failing_host ''/cache/acme/mycli/1.2.3/mycli'' a
       = Inl (Error ''Error'' ''The process failed with exit code 1'')" for a
    by (simp add: sel2)
  from T1 [THEN conjunct2, THEN conjunct2, THEN conjunct2, THEN conjunct2,
      THEN conjunct2, THEN conjunct2, THEN conjunct2, THEN conjunct1,
      THEN mp, OF conjI [OF m1 conjI [OF example_bin d]]]
  have "new_events empty_world (invokeWith offline_host update_builder_args empty_world)
       = [ReadFile (path_join offline_host (dirname offline_host) ''../../Cargo.toml''),
          Find ''acme/mycli'' (package_version (package example_toml)),
          Download (releaseUrl ''acme/mycli'' (package_version (package example_toml))
            ''mycli'' (platform offline_host)),
          SetFailed ''Unexpected HTTP response: 404'']"
    .
  then have A: "new_events empty_world (invokeWith offline_host update_builder_args empty_world)
       = [ReadFile ''/action/dist/../../Cargo.toml'', Find ''acme/mycli'' ''1.2.3'',
          Download (releaseUrl ''acme/mycli'' ''1.2.3'' ''mycli'' ''linux''),
          SetFailed ''Unexpected HTTP response: 404'']"
    by (simp add: sel1 selt)
  have "execute_rust_binary_action offline_host ''prepare'' empty_world
      = (Inl (Error ''HTTPError'' ''Unexpected HTTP response: 404''),
         snd (execute_rust_binary_action offline_host ''prepare'' empty_world))"
    by (simp add: offline_variant)
  from T1 [THEN conjunct2, THEN conjunct1, THEN mp, OF this]
  have B: "filter is_failure (new_events empty_world (run offline_host ''prepare'' empty_world))
       = [SetFailed ''Unexpected HTTP response: 404'']"
    by blast
  from T2 [THEN conjunct2, THEN conjunct2, THEN conjunct2, THEN conjunct2,
      THEN conjunct2, THEN conjunct2, THEN conjunct2, THEN conjunct2,
      THEN conjunct2, THEN conjunct2, THEN conjunct2, THEN conjunct2,
      THEN conjunct1, THEN mp,
      OF conjI [OF h1 conjI [OF example_bin conjI [OF args x']]]]
  have "new_events cached_world (invokeWith exec_failing_host prepare_release_args cached_world)
       = [ReadFile (path_join exec_failing_host (dirname exec_failing_host) ''../../Cargo.toml''),
          Find ''acme/mycli'' (package_version (package example_toml)),
          Exec (path_join exec_failing_host ''/cache/acme/mycli/1.2.3'' ''mycli'')
            [''prepare-release'', ''--bump'', ''patch'', ''--repository-url'', ''''],
          SetFailed ''The process failed with exit code 1'']"
    .
  then have C: "new_events cached_world
         (invokeWith exec_failing_host prepare_release_args cached_world)
       = [ReadFile ''/action/dist/../../Cargo.toml'', Find ''acme/mycli'' ''1.2.3'',
          Exec ''/cache/acme/mycli/1.2.3/mycli''
            [''prepare-release'', ''--bump'', ''patch'', ''--repository-url'', ''''],
          SetFailed ''The process failed with exit code 1'']"
    by (simp add: sel2 selt)
  from T2 [THEN conjunct2, THEN conjunct2, THEN conjunct2, THEN conjunct2,
      THEN conjunct2, THEN conjunct2, THEN conjunct2, THEN conjunct2,
      THEN conjunct2, THEN conjunct2, THEN conjunct2, THEN conjunct2,
      THEN conjunct2, THEN conjunct2, THEN conjunct2, THEN conjunct2,
      THEN conjunct2, THEN conjunct2, THEN conjunct2, THEN conjunct2,
      THEN conjunct2, THEN conjunct1, THEN mp, OF conjI [OF h2 x'']]
  have "new_events cached_world (run exec_failing_host ''prepare'' cached_world)
       = [ReadFile (path_join exec_failing_host (dirname exec_failing_host) ''../Cargo.toml''),
          Find ''acme/mycli'' (package_version (package example_toml)),
          Exec (path_join exec_failing_host ''/cache/acme/mycli/1.2.3''
            (package_name (package example_toml))) [''prepare''],
          SetFailed ''The process failed with exit code 1'']"
    .
  then have D: "new_events cached_world (run exec_failing_host ''prepare'' cached_world)
       = [ReadFile ''/action/dist/../Cargo.toml'', Find ''acme/mycli'' ''1.2.3'',
          Exec ''/cache/acme/mycli/1.2.3/mycli'' [''prepare''],
          SetFailed ''The process failed with exit code 1'']"
    by (simp add: sel2 selt)
  have s: "supported ''linux''" by (simp add: supported_def)
  have sel3: "path_join (example_host ''linux'') = (\<lambda>a b. a @ ''/'' @ b)"
    "dirname (example_host ''linux'') = ''/action/dist''"
    by (simp_all add: example_host_def)
  have miss: "update_builder_args (core_accessors (example_host ''linux''))
      = Inl (Error ''Error'' (''Input required and not supplied: '' @ ''path''))"
    unfolding update_builder_args_def
    by (rule array_literal_missing [OF update_builder_example])
  note T3 = C9_error_reported_once [where h = "example_host ''linux''"
      and g = update_builder_args and w = cached_world and t = example_toml
      and key = "''acme/mycli''" and nm = "''mycli''" and dir = "''/cache/acme/mycli/1.2.3''"
      and n = "''Error''" and msg = "''Input required and not supplied: '' @ ''path''"]
  from T3 [THEN conjunct2, THEN conjunct2, THEN conjunct2, THEN conjunct2,
      THEN conjunct2, THEN conjunct2, THEN conjunct2, THEN conjunct2,
      THEN conjunct2, THEN conjunct2, THEN conjunct1, THEN mp,
      OF conjI [OF example_hit [OF s] conjI [OF example_bin miss]]]
  have "new_events cached_world
          (invokeWith (example_host ''linux'') update_builder_args cached_world)
       = [ReadFile (path_join (example_host ''linux'') (dirname (example_host ''linux''))
            ''../../Cargo.toml''),
          Find ''acme/mycli'' (package_version (package example_toml)),
          SetFailed (''Input required and not supplied: '' @ ''path'')]"
    .
  then have E: "new_events cached_world
          (invokeWith (example_host ''linux'') update_builder_args cached_world)
       = [ReadFile ''/action/dist/../../Cargo.toml'', Find ''acme/mycli'' ''1.2.3'',
          SetFailed ''Input required and not supplied: path'']"
    by (simp add: sel3 selt)
  from A B C D E m1 h1 d0 x show ?thesis by simp
qed

text \<open>
  C10. When the action rejects with a value that is not an \<open>Error\<close> (a thrown
  string, say), the handler reports nothing: the entry point returns the world the
  action left, \<open>setFailed\<close> is not called, and the rejection is lost. This holds
  for both entry points.
\<close>

theorem C10_non_error_swallowed:
  "(executeRustBinaryAction h g w = (Inl (NonError v), w1) \<longrightarrow>
      invokeWith h g w = w1
    \<and> filter is_failure (new_events w (invokeWith h g w)) = [])
   \<and> (execute_rust_binary_action h c w = (Inl (NonError v), w1) \<longrightarrow>
      run h c w = w1
    \<and> filter is_failure (new_events w (run h c w)) = [])"
proof -
  { assume a: "executeRustBinaryAction h g w = (Inl (NonError v), w1)"
    from bootstrap_events [of h g w] a obtain evs where
      e: "trace w1 = trace w @ evs" "map operation evs \<in> set call_sequences"
      by auto
    have i: "invokeWith h g w = w1"
      by (simp add: invokeWith_def a)
    from e(1) have "new_events w w1 = evs" by (rule new_events_append)
    with i call_sequences_no_setFailed [OF e(2)]
    have "invokeWith h g w = w1 \<and> filter is_failure (new_events w (invokeWith h g w)) = []"
      by simp }
  moreover
  { assume a: "execute_rust_binary_action h c w = (Inl (NonError v), w1)"
    from variant_events [of h c w] a obtain evs where
      e: "trace w1 = trace w @ evs" "map operation evs \<in> set call_sequences"
      by auto
    have i: "run h c w = w1"
      by (simp add: run_def a)
    from e(1) have "new_events w w1 = evs" by (rule new_events_append)
    with i call_sequences_no_setFailed [OF e(2)]
    have "run h c w = w1 \<and> filter is_failure (new_events w (run h c w)) = []"
      by simp }
  ultimately show ?thesis by blast
qed

theorem C10_non_error_swallowed_witness:
  "fst (executeRustBinaryAction string_throwing_host update_builder_args empty_world)
     = Inl (NonError ''connection reset'')
   \<and> filter is_failure (new_events empty_world
        (invokeWith string_throwing_host update_builder_args empty_world))
     = []
   \<and> fst (execute_rust_binary_action string_throwing_host ''prepare'' empty_world)
     = Inl (NonError ''connection reset'')
   \<and> filter is_failure (new_events empty_world (run string_throwing_host ''prepare'' empty_world))
     = []"
proof -
  note a = string_throwing_bootstrap [of update_builder_args]
  note b = string_throwing_variant [of "''prepare''"]
  from C10_non_error_swallowed [THEN conjunct1, THEN mp, OF a]
  have A: "filter is_failure (new_events empty_world
        (invokeWith string_throwing_host update_builder_args empty_world)) = []"
    by blast
  from C10_non_error_swallowed [THEN conjunct2, THEN mp, OF b]
  have B: "filter is_failure (new_events empty_world
        (run string_throwing_host ''prepare'' empty_world)) = []"
    by blast
  from A B show ?thesis by (simp add: a b)
qed


end
